theory Spec2Isabelle
  imports Main "HOL-Library.AList" "HOL-Library.Sublist"
begin

section \<open>Values\<close>

text \<open>
  JSON values as Python holds them after decoding: \<open>None\<close>, booleans, integers, strings,
  lists and dicts. A dict is an association list in insertion order; Python's
  \<open>d[k] = v\<close> replaces the value of an existing key in place and appends a new key, which
  is what \<open>AList.update\<close> does. Floating-point numbers are left out.
\<close>

datatype json =
    JNull
  | JBool bool
  | JInt int
  | JStr string
  | JList "json list"
  | JDict "(string \<times> json) list"

type_synonym dict = "(string \<times> json) list"

text \<open>\<open>k in d\<close>, \<open>d.get(k)\<close> (\<open>None\<close> when absent) and \<open>d.get(k, default)\<close>.\<close>

definition has_key :: "dict \<Rightarrow> string \<Rightarrow> bool" where
  "has_key d k = (map_of d k \<noteq> None)"

definition dict_get :: "dict \<Rightarrow> string \<Rightarrow> json" where
  "dict_get d k = (case map_of d k of None \<Rightarrow> JNull | Some v \<Rightarrow> v)"

definition dict_get_default :: "dict \<Rightarrow> string \<Rightarrow> json \<Rightarrow> json" where
  "dict_get_default d k dflt = (case map_of d k of None \<Rightarrow> dflt | Some v \<Rightarrow> v)"

text \<open>\<open>d[k] = v\<close>, and the dict display \<open>{**d1, **d2}\<close>: the items of \<open>d2\<close> are stored into
  \<open>d1\<close> from left to right.\<close>

definition dict_set :: "string \<Rightarrow> json \<Rightarrow> dict \<Rightarrow> dict" where
  "dict_set k v d = AList.update k v d"

definition dict_update :: "dict \<Rightarrow> dict \<Rightarrow> dict" where
  "dict_update d1 d2 = fold (\<lambda>(k, v). dict_set k v) d2 d1"

text \<open>Truth value of an object, as \<open>if x:\<close> tests it.\<close>

fun truthy :: "json \<Rightarrow> bool" where
  "truthy JNull = False"
| "truthy (JBool b) = b"
| "truthy (JInt i) = (i \<noteq> 0)"
| "truthy (JStr s) = (s \<noteq> [])"
| "truthy (JList xs) = (xs \<noteq> [])"
| "truthy (JDict d) = (d \<noteq> [])"

text \<open>Truth value of an optional string (\<open>str | None\<close>): false for \<open>None\<close> and for \<open>""\<close>.\<close>

fun truthy_str :: "string option \<Rightarrow> bool" where
  "truthy_str None = False"
| "truthy_str (Some s) = (s \<noteq> [])"

definition quoted :: "string \<Rightarrow> string" where
  "quoted s = CHR 0x27 # s @ [CHR 0x27]"

section \<open>Exceptions\<close>

text \<open>
  An exception is an instance of \<open>Exception\<close>; it is identified by the except clauses of
  this program that catch it (a subclass of \<open>KeyError\<close> counts as \<open>KeyError\<close>) and by
  its message \<open>str(e)\<close>. \<open>OtherException\<close> stands for every class that none of the
  named clauses catches. The three \<open>couchdb.http\<close> classes derive from \<open>HTTPError\<close>,
  not from one another.
\<close>

datatype exn_class =
    KeyError
  | AttributeError
  | TypeError
  | ValueError
  | ConnectionError
  | PreconditionFailed
  | ResourceNotFound
  | ResourceConflict
  | OtherException

datatype exn = Exn exn_class string

fun class_of :: "exn \<Rightarrow> exn_class" where
  "class_of (Exn c m) = c"

fun str :: "exn \<Rightarrow> string" where
  "str (Exn c m) = m"

text \<open>\<open>len(x)\<close> on a decoded JSON value.\<close>

fun py_len :: "json \<Rightarrow> exn + nat" where
  "py_len (JStr s) = Inr (length s)"
| "py_len (JList xs) = Inr (length xs)"
| "py_len (JDict d) = Inr (length d)"
| "py_len JNull = Inl (Exn TypeError (''object of type '' @ quoted ''NoneType'' @ '' has no len()''))"
| "py_len (JBool b) = Inl (Exn TypeError (''object of type '' @ quoted ''bool'' @ '' has no len()''))"
| "py_len (JInt i) = Inl (Exn TypeError (''object of type '' @ quoted ''int'' @ '' has no len()''))"

section \<open>The environment: driver, server and runtime\<close>

text \<open>
  The program talks to the database through the \<open>couchdb\<close> driver. Neither the driver
  nor the server is part of the program, so both are a parameter: for each driver
  operation the program uses, the environment says what it returns or raises and how the
  server's state \<open>'w\<close> changes. Every operation the program invokes is recorded, in order,
  in \<open>calls\<close>.
\<close>

type_synonym handle = nat

datatype call =
    ServerNew string                \<comment> \<open>\<open>couchdb.Server(url)\<close>\<close>
  | ServerVersion                   \<comment> \<open>\<open>server.version()\<close>\<close>
  | ServerIter                      \<comment> \<open>\<open>list(server)\<close>\<close>
  | ServerCreate string             \<comment> \<open>\<open>server.create(name)\<close>\<close>
  | ServerDelete string             \<comment> \<open>\<open>server.delete(name)\<close>\<close>
  | ServerGetitem string            \<comment> \<open>\<open>server[database]\<close>\<close>
  | DbSave string dict              \<comment> \<open>\<open>db.save(doc)\<close>\<close>
  | DbGetitem string string         \<comment> \<open>\<open>db[doc_id]\<close>\<close>
  | DbDelete string dict            \<comment> \<open>\<open>db.delete(doc)\<close>\<close>
  | DbFind string dict              \<comment> \<open>\<open>db.find(mango_query)\<close>\<close>
  | DbView string string dict       \<comment> \<open>\<open>db.view(name, **params)\<close>, iterated\<close>
  | DbPostJson string string dict   \<comment> \<open>\<open>db.resource.post_json(path, body=...)\<close>\<close>
  | DbGetJson string string         \<comment> \<open>\<open>db.resource.get_json(path)\<close>\<close>

record row =
  row_id :: json
  row_key :: json
  row_value :: json
  row_doc :: json

text \<open>
  \<open>post_json\<close> and \<open>get_json\<close> return a tuple; the handlers read only its component at
  index 1 and call \<open>.get\<close> on it, so the environment gives that component, a mapping.
  \<open>json_dumps\<close> is \<open>json.dumps(v, indent=2)\<close> and \<open>str_list\<close> is \<open>str\<close> of a list of
  strings, both of the Python runtime.
\<close>

record 'w env =
  server_new :: "string \<Rightarrow> 'w \<Rightarrow> (exn + handle) \<times> 'w"
  server_version :: "'w \<Rightarrow> (exn + string) \<times> 'w"
  server_iter :: "'w \<Rightarrow> (exn + string list) \<times> 'w"
  server_create :: "string \<Rightarrow> 'w \<Rightarrow> (exn + unit) \<times> 'w"
  server_delete :: "string \<Rightarrow> 'w \<Rightarrow> (exn + unit) \<times> 'w"
  server_getitem :: "string \<Rightarrow> 'w \<Rightarrow> (exn + unit) \<times> 'w"
  db_save :: "string \<Rightarrow> dict \<Rightarrow> 'w \<Rightarrow> (exn + string \<times> string) \<times> 'w"
  db_getitem :: "string \<Rightarrow> string \<Rightarrow> 'w \<Rightarrow> (exn + dict) \<times> 'w"
  db_delete :: "string \<Rightarrow> dict \<Rightarrow> 'w \<Rightarrow> (exn + unit) \<times> 'w"
  db_find :: "string \<Rightarrow> dict \<Rightarrow> 'w \<Rightarrow> (exn + dict list) \<times> 'w"
  db_view :: "string \<Rightarrow> string \<Rightarrow> dict \<Rightarrow> 'w \<Rightarrow> (exn + row list) \<times> 'w"
  db_post_json :: "string \<Rightarrow> string \<Rightarrow> dict \<Rightarrow> 'w \<Rightarrow> (exn + dict) \<times> 'w"
  db_get_json :: "string \<Rightarrow> string \<Rightarrow> 'w \<Rightarrow> (exn + dict) \<times> 'w"
  json_dumps :: "json \<Rightarrow> string"
  str_list :: "string list \<Rightarrow> string"

section \<open>The server object and computations on it\<close>

text \<open>\<open>CouchDBServer\<close>: the configured \<open>url\<close> and the connection handle \<open>couch\<close>
  (\<open>None\<close> until a \<open>couchdb.Server\<close> object is assigned), next to the world outside.\<close>

record 'w state =
  url :: string
  couch :: "handle option"
  world :: 'w
  calls :: "call list"

text \<open>A computation returns a value or raises, and leaves a state.\<close>

type_synonym ('a, 'w) run = "'w state \<Rightarrow> (exn + 'a) \<times> 'w state"

definition returnE :: "'a \<Rightarrow> ('a, 'w) run" where
  "returnE x s = (Inr x, s)"

definition raiseE :: "exn \<Rightarrow> ('a, 'w) run" where
  "raiseE e s = (Inl e, s)"

definition bindE :: "('a, 'w) run \<Rightarrow> ('a \<Rightarrow> ('b, 'w) run) \<Rightarrow> ('b, 'w) run" where
  "bindE m f s = (case m s of (Inl e, s') \<Rightarrow> (Inl e, s') | (Inr x, s') \<Rightarrow> f x s')"

text \<open>\<open>try: m except ... as e: h e\<close>; a handler re-raises what no clause catches.\<close>

definition catchE :: "('a, 'w) run \<Rightarrow> (exn \<Rightarrow> ('a, 'w) run) \<Rightarrow> ('a, 'w) run" where
  "catchE m h s = (case m s of (Inl e, s') \<Rightarrow> h e s' | (Inr x, s') \<Rightarrow> (Inr x, s'))"

text \<open>One driver operation: it is recorded, and the environment answers.\<close>

definition lib :: "call \<Rightarrow> ('w \<Rightarrow> (exn + 'a) \<times> 'w) \<Rightarrow> ('a, 'w) run" where
  "lib c f s = (case f (world s) of
     (r, w') \<Rightarrow> (r, s\<lparr>world := w', calls := calls s @ [c]\<rparr>))"

definition liftE :: "exn + 'a \<Rightarrow> ('a, 'w) run" where
  "liftE r s = (r, s)"

section \<open>Connection holder\<close>

text \<open>\<open>self.couch = h\<close>\<close>

definition assign_couch :: "handle \<Rightarrow> (unit, 'w) run" where
  "assign_couch h s = (Inr (), s\<lparr>couch := Some h\<rparr>)"

text \<open>
  \<open>connect\<close>: the handle is assigned as soon as the \<open>couchdb.Server\<close> object exists,
  before \<open>version()\<close> tests the connection; any exception of either step is re-raised
  as a \<open>ConnectionError\<close> naming the url.
\<close>

definition connect :: "'w env \<Rightarrow> (bool, 'w) run" where
  "connect E s =
     catchE
       (bindE (lib (ServerNew (url s)) (server_new E (url s))) (\<lambda>h.
        bindE (assign_couch h) (\<lambda>_.
        bindE (lib ServerVersion (server_version E)) (\<lambda>_.
        returnE True))))
       (\<lambda>e. raiseE (Exn ConnectionError
          (''Failed to connect to CouchDB at '' @ url s @ '': '' @ str e)))
       s"

text \<open>\<open>_get_server\<close>: connects only when no handle is held. The \<open>assert\<close> cannot fail:
  \<open>connect\<close> returns only after it assigned the handle.\<close>

definition get_server :: "'w env \<Rightarrow> (handle, 'w) run" where
  "get_server E s =
     bindE (if couch s = None then bindE (connect E) (\<lambda>_. returnE ()) else returnE ()) (\<lambda>_ s1.
       case couch s1 of
         None \<Rightarrow> (Inl (Exn OtherException []), s1)
       | Some h \<Rightarrow> (Inr h, s1))
     s"

section \<open>Operation handlers\<close>

datatype content = TextContent string

text \<open>The advisory note of an empty search result.\<close>

definition no_match_note :: string where
  "no_match_note = ''No documents matched the query. To verify documents exist, use couchdb_list_documents with include_docs=true''"

definition update_conflict_message :: string where
  "update_conflict_message = ''Document update conflict - document was modified, please get the latest revision''"

definition list_databases :: "'w env \<Rightarrow> (content list, 'w) run" where
  "list_databases E =
     bindE (get_server E) (\<lambda>_.
     bindE (lib ServerIter (server_iter E)) (\<lambda>databases.
     returnE [TextContent (json_dumps E (JDict
       [(''databases'', JList (map JStr databases)),
        (''count'', JInt (int (length databases)))]))]))"

definition create_database :: "'w env \<Rightarrow> string \<Rightarrow> (content list, 'w) run" where
  "create_database E name =
     catchE
       (bindE (get_server E) (\<lambda>_.
        bindE (lib (ServerCreate name) (server_create E name)) (\<lambda>_.
        returnE [TextContent (''Database '' @ quoted name @ '' created successfully'')])))
       (\<lambda>e. if class_of e = PreconditionFailed
            then returnE [TextContent (''Database '' @ quoted name @ '' already exists'')]
            else raiseE e)"

definition delete_database :: "'w env \<Rightarrow> string \<Rightarrow> (content list, 'w) run" where
  "delete_database E name =
     catchE
       (bindE (get_server E) (\<lambda>_.
        bindE (lib (ServerDelete name) (server_delete E name)) (\<lambda>_.
        returnE [TextContent (''Database '' @ quoted name @ '' deleted successfully'')])))
       (\<lambda>e. if class_of e = ResourceNotFound
            then returnE [TextContent (''Database '' @ quoted name @ '' not found'')]
            else raiseE e)"

text \<open>\<open>_create_document\<close>: with a truthy \<open>doc_id\<close> the document saved is
  \<open>{"_id": doc_id, **document}\<close>, otherwise \<open>document\<close> itself.\<close>

definition create_document ::
    "'w env \<Rightarrow> string \<Rightarrow> dict \<Rightarrow> string option \<Rightarrow> (content list, 'w) run" where
  "create_document E database document doc_id =
     catchE
       (bindE (get_server E) (\<lambda>_.
        bindE (lib (ServerGetitem database) (server_getitem E database)) (\<lambda>_.
        bindE (if truthy_str doc_id
               then (let d = dict_update [(''_id'', JStr (the doc_id))] document
                     in lib (DbSave database d) (db_save E database d))
               else lib (DbSave database document) (db_save E database document))
          (\<lambda>(saved_id, rv).
        returnE [TextContent (json_dumps E (JDict
          [(''id'', JStr saved_id),
           (''rev'', JStr rv),
           (''message'', JStr ''Document created successfully'')]))]))))
       (\<lambda>e. if class_of e = KeyError
            then returnE [TextContent (''Database '' @ quoted database @ '' not found'')]
            else returnE [TextContent (''Error creating document: '' @ str e)])"

definition get_document :: "'w env \<Rightarrow> string \<Rightarrow> string \<Rightarrow> (content list, 'w) run" where
  "get_document E database doc_id =
     catchE
       (bindE (get_server E) (\<lambda>_.
        bindE (lib (ServerGetitem database) (server_getitem E database)) (\<lambda>_.
        bindE (lib (DbGetitem database doc_id) (db_getitem E database doc_id)) (\<lambda>doc.
        returnE [TextContent (json_dumps E (JDict doc))]))))
       (\<lambda>e. if class_of e = KeyError
            then returnE [TextContent (''Database '' @ quoted database @ '' or document ''
                                        @ quoted doc_id @ '' not found'')]
            else if class_of e = ResourceNotFound
            then returnE [TextContent (''Document '' @ quoted doc_id @ '' not found'')]
            else raiseE e)"

text \<open>\<open>_update_document\<close>: \<open>doc_id\<close> is stored as \<open>_id\<close> only when the document has none;
  one \<open>save\<close>.\<close>

definition update_document ::
    "'w env \<Rightarrow> string \<Rightarrow> string \<Rightarrow> dict \<Rightarrow> (content list, 'w) run" where
  "update_document E database doc_id document =
     catchE
       (bindE (get_server E) (\<lambda>_.
        bindE (lib (ServerGetitem database) (server_getitem E database)) (\<lambda>_.
        let d = (if \<not> has_key document ''_id''
                 then dict_set ''_id'' (JStr doc_id) document else document) in
        bindE (lib (DbSave database d) (db_save E database d)) (\<lambda>(saved_id, rv).
        returnE [TextContent (json_dumps E (JDict
          [(''id'', JStr saved_id),
           (''rev'', JStr rv),
           (''message'', JStr ''Document updated successfully'')]))]))))
       (\<lambda>e. if class_of e = KeyError
            then returnE [TextContent (''Database '' @ quoted database @ '' not found'')]
            else if class_of e = ResourceConflict
            then returnE [TextContent update_conflict_message]
            else returnE [TextContent (''Error updating document: '' @ str e)])"

definition delete_document ::
    "'w env \<Rightarrow> string \<Rightarrow> string \<Rightarrow> string \<Rightarrow> (content list, 'w) run" where
  "delete_document E database doc_id rv =
     catchE
       (bindE (get_server E) (\<lambda>_.
        bindE (lib (ServerGetitem database) (server_getitem E database)) (\<lambda>_.
        let d = [(''_id'', JStr doc_id), (''_rev'', JStr rv)] in
        bindE (lib (DbDelete database d) (db_delete E database d)) (\<lambda>_.
        returnE [TextContent (''Document '' @ quoted doc_id @ '' deleted successfully'')]))))
       (\<lambda>e. if class_of e = KeyError
            then returnE [TextContent (''Database '' @ quoted database @ '' not found'')]
            else if class_of e = ResourceNotFound
            then returnE [TextContent (''Document '' @ quoted doc_id @ '' not found'')]
            else if class_of e = ResourceConflict
            then returnE [TextContent ''Document delete conflict - revision mismatch'']
            else raiseE e)"

text \<open>\<open>_search_documents\<close>: the primary path builds its response from the documents that
  \<open>db.find\<close> yields; only an \<open>AttributeError\<close> leads to the fallback.\<close>

definition mango_query :: "dict \<Rightarrow> int \<Rightarrow> int \<Rightarrow> dict" where
  "mango_query query limit skip =
     [(''selector'', JDict query), (''limit'', JInt limit), (''skip'', JInt skip)]"

definition search_documents_fallback ::
    "'w env \<Rightarrow> string \<Rightarrow> dict \<Rightarrow> int \<Rightarrow> int \<Rightarrow> (content list, 'w) run" where
  "search_documents_fallback E database query limit skip =
     catchE
       (bindE (get_server E) (\<lambda>_.
        bindE (lib (ServerGetitem database) (server_getitem E database)) (\<lambda>_.
        let q = mango_query query limit skip in
        bindE (lib (DbPostJson database ''_find'' q) (db_post_json E database ''_find'' q)) (\<lambda>result1.
        let docs = dict_get_default result1 ''docs'' (JList []);
            warning = dict_get_default result1 ''warning'' JNull in
        bindE (liftE (py_len docs)) (\<lambda>n.
        let response = [(''docs'', docs), (''count'', JInt (int n))];
            response = (if truthy warning then dict_set ''warning'' warning response
                        else response);
            response = (if n = 0 then dict_set ''note'' (JStr no_match_note) response
                        else response) in
        returnE [TextContent (json_dumps E (JDict response))])))))
       (\<lambda>e. returnE [TextContent (''Error in fallback search: '' @ str e)])"

definition search_documents ::
    "'w env \<Rightarrow> string \<Rightarrow> dict \<Rightarrow> int \<Rightarrow> int \<Rightarrow> (content list, 'w) run" where
  "search_documents E database query limit skip =
     catchE
       (bindE (get_server E) (\<lambda>_.
        bindE (lib (ServerGetitem database) (server_getitem E database)) (\<lambda>_.
        let q = mango_query query limit skip in
        bindE (lib (DbFind database q) (db_find E database q)) (\<lambda>docs.
        let response = [(''docs'', JList (map JDict docs)),
                        (''count'', JInt (int (length docs)))];
            response = (if length docs = 0
                        then dict_set ''note'' (JStr no_match_note) response
                        else response) in
        returnE [TextContent (json_dumps E (JDict response))]))))
       (\<lambda>e. if class_of e = KeyError
            then returnE [TextContent (''Database '' @ quoted database @ '' not found'')]
            else if class_of e = AttributeError
            then search_documents_fallback E database query limit skip
            else returnE [TextContent (''Error searching documents: '' @ str e)])"

definition list_documents ::
    "'w env \<Rightarrow> string \<Rightarrow> int option \<Rightarrow> bool \<Rightarrow> (content list, 'w) run" where
  "list_documents E database limit include_docs =
     catchE
       (bindE (get_server E) (\<lambda>_.
        bindE (lib (ServerGetitem database) (server_getitem E database)) (\<lambda>_.
        let params = [(''include_docs'', JBool include_docs)];
            params = (case limit of None \<Rightarrow> params
                      | Some l \<Rightarrow> dict_set ''limit'' (JInt l) params) in
        bindE (lib (DbView database ''_all_docs'' params)
                   (db_view E database ''_all_docs'' params)) (\<lambda>all_docs.
        let docs = map (\<lambda>r. if include_docs then row_doc r
                             else JDict [(''id'', row_id r), (''key'', row_key r),
                                         (''value'', row_value r)]) all_docs in
        returnE [TextContent (json_dumps E (JDict
          [(''documents'', JList docs), (''count'', JInt (int (length docs)))]))]))))
       (\<lambda>e. if class_of e = KeyError
            then returnE [TextContent (''Database '' @ quoted database @ '' not found'')]
            else returnE [TextContent (''Error listing documents: '' @ str e)])"

definition create_index ::
    "'w env \<Rightarrow> string \<Rightarrow> string list \<Rightarrow> string option \<Rightarrow> (content list, 'w) run" where
  "create_index E database field_names index_name =
     catchE
       (bindE (get_server E) (\<lambda>_.
        bindE (lib (ServerGetitem database) (server_getitem E database)) (\<lambda>_.
        let index_spec = [(''index'', JDict [(''fields'', JList (map JStr field_names))]),
                          (''type'', JStr ''json'')];
            index_spec = (if truthy_str index_name
                          then dict_set ''name'' (JStr (the index_name)) index_spec
                          else index_spec) in
        bindE (lib (DbPostJson database ''_index'' index_spec)
                   (db_post_json E database ''_index'' index_spec)) (\<lambda>result1.
        returnE [TextContent (json_dumps E (JDict
          [(''result'', dict_get result1 ''result''),
           (''id'', dict_get result1 ''id''),
           (''name'', dict_get result1 ''name''),
           (''message'', JStr (''Index created successfully on fields: ''
                               @ str_list E field_names))]))]))))
       (\<lambda>e. if class_of e = KeyError
            then returnE [TextContent (''Database '' @ quoted database @ '' not found'')]
            else returnE [TextContent (''Error creating index: '' @ str e)])"

definition list_indexes :: "'w env \<Rightarrow> string \<Rightarrow> (content list, 'w) run" where
  "list_indexes E database =
     catchE
       (bindE (get_server E) (\<lambda>_.
        bindE (lib (ServerGetitem database) (server_getitem E database)) (\<lambda>_.
        bindE (lib (DbGetJson database ''_index'') (db_get_json E database ''_index'')) (\<lambda>result1.
        let indexes = dict_get_default result1 ''indexes'' (JList []) in
        bindE (liftE (py_len indexes)) (\<lambda>n.
        returnE [TextContent (json_dumps E (JDict
          [(''indexes'', indexes),
           (''count'', JInt (int n)),
           (''total_rows'', dict_get result1 ''total_rows'')]))])))))
       (\<lambda>e. if class_of e = KeyError
            then returnE [TextContent (''Database '' @ quoted database @ '' not found'')]
            else returnE [TextContent (''Error listing indexes: '' @ str e)])"

section \<open>Tool catalog and dispatcher\<close>

text \<open>
  The argument payload is a JSON object. Each property is absent or holds a value of the
  type that the tool's \<open>inputSchema\<close> declares for it, which is also the type the
  handler's parameter is annotated with.
\<close>

record arguments =
  arg_name :: "string option"
  arg_database :: "string option"
  arg_document :: "dict option"
  arg_doc_id :: "string option"
  arg_rev :: "string option"
  arg_query :: "dict option"
  arg_limit :: "int option"
  arg_skip :: "int option"
  arg_include_docs :: "bool option"
  arg_fields :: "string list option"
  arg_index_name :: "string option"

text \<open>The catalog of \<open>list_tools\<close>: name, properties with their JSON types, required
  properties (descriptions left out).\<close>

record tool =
  tool_name :: string
  properties :: "(string \<times> string) list"
  required :: "string list"

definition list_tools :: "tool list" where
  "list_tools =
    [\<lparr>tool_name = ''couchdb_list_databases'', properties = [], required = []\<rparr>,
     \<lparr>tool_name = ''couchdb_create_database'',
      properties = [(''name'', ''string'')], required = [''name'']\<rparr>,
     \<lparr>tool_name = ''couchdb_delete_database'',
      properties = [(''name'', ''string'')], required = [''name'']\<rparr>,
     \<lparr>tool_name = ''couchdb_create_document'',
      properties = [(''database'', ''string''), (''document'', ''object''),
                    (''doc_id'', ''string'')],
      required = [''database'', ''document'']\<rparr>,
     \<lparr>tool_name = ''couchdb_get_document'',
      properties = [(''database'', ''string''), (''doc_id'', ''string'')],
      required = [''database'', ''doc_id'']\<rparr>,
     \<lparr>tool_name = ''couchdb_update_document'',
      properties = [(''database'', ''string''), (''doc_id'', ''string''),
                    (''document'', ''object'')],
      required = [''database'', ''doc_id'', ''document'']\<rparr>,
     \<lparr>tool_name = ''couchdb_delete_document'',
      properties = [(''database'', ''string''), (''doc_id'', ''string''),
                    (''rev'', ''string'')],
      required = [''database'', ''doc_id'', ''rev'']\<rparr>,
     \<lparr>tool_name = ''couchdb_search_documents'',
      properties = [(''database'', ''string''), (''query'', ''object''),
                    (''limit'', ''integer''), (''skip'', ''integer'')],
      required = [''database'', ''query'']\<rparr>,
     \<lparr>tool_name = ''couchdb_list_documents'',
      properties = [(''database'', ''string''), (''limit'', ''integer''),
                    (''include_docs'', ''boolean'')],
      required = [''database'']\<rparr>,
     \<lparr>tool_name = ''couchdb_create_index'',
      properties = [(''database'', ''string''), (''fields'', ''array''),
                    (''index_name'', ''string'')],
      required = [''database'', ''fields'']\<rparr>,
     \<lparr>tool_name = ''couchdb_list_indexes'',
      properties = [(''database'', ''string'')], required = [''database'']\<rparr>]"

text \<open>\<open>arguments[k]\<close>: a missing key raises \<open>KeyError(k)\<close>, whose \<open>str\<close> is the quoted
  key. \<open>arguments.get(k, default)\<close> is \<open>case_option default id\<close>.\<close>

definition subscript :: "string \<Rightarrow> 'a option \<Rightarrow> ('a, 'w) run" where
  "subscript k v = (case v of None \<Rightarrow> raiseE (Exn KeyError (quoted k))
                    | Some x \<Rightarrow> returnE x)"

definition call_tool_body :: "'w env \<Rightarrow> string \<Rightarrow> arguments \<Rightarrow> (content list, 'w) run" where
  "call_tool_body E name arguments =
    (if name = ''couchdb_list_databases'' then list_databases E
     else if name = ''couchdb_create_database'' then
       bindE (subscript ''name'' (arg_name arguments)) (\<lambda>n. create_database E n)
     else if name = ''couchdb_delete_database'' then
       bindE (subscript ''name'' (arg_name arguments)) (\<lambda>n. delete_database E n)
     else if name = ''couchdb_create_document'' then
       bindE (subscript ''database'' (arg_database arguments)) (\<lambda>database.
       bindE (subscript ''document'' (arg_document arguments)) (\<lambda>document.
       create_document E database document (arg_doc_id arguments)))
     else if name = ''couchdb_get_document'' then
       bindE (subscript ''database'' (arg_database arguments)) (\<lambda>database.
       bindE (subscript ''doc_id'' (arg_doc_id arguments)) (\<lambda>doc_id.
       get_document E database doc_id))
     else if name = ''couchdb_update_document'' then
       bindE (subscript ''database'' (arg_database arguments)) (\<lambda>database.
       bindE (subscript ''doc_id'' (arg_doc_id arguments)) (\<lambda>doc_id.
       bindE (subscript ''document'' (arg_document arguments)) (\<lambda>document.
       update_document E database doc_id document)))
     else if name = ''couchdb_delete_document'' then
       bindE (subscript ''database'' (arg_database arguments)) (\<lambda>database.
       bindE (subscript ''doc_id'' (arg_doc_id arguments)) (\<lambda>doc_id.
       bindE (subscript ''rev'' (arg_rev arguments)) (\<lambda>rv.
       delete_document E database doc_id rv)))
     else if name = ''couchdb_search_documents'' then
       bindE (subscript ''database'' (arg_database arguments)) (\<lambda>database.
       bindE (subscript ''query'' (arg_query arguments)) (\<lambda>query.
       search_documents E database query
         (case_option 25 id (arg_limit arguments))
         (case_option 0 id (arg_skip arguments))))
     else if name = ''couchdb_list_documents'' then
       bindE (subscript ''database'' (arg_database arguments)) (\<lambda>database.
       list_documents E database (arg_limit arguments)
         (case_option False id (arg_include_docs arguments)))
     else if name = ''couchdb_create_index'' then
       bindE (subscript ''database'' (arg_database arguments)) (\<lambda>database.
       bindE (subscript ''fields'' (arg_fields arguments)) (\<lambda>field_names.
       create_index E database field_names (arg_index_name arguments)))
     else if name = ''couchdb_list_indexes'' then
       bindE (subscript ''database'' (arg_database arguments)) (\<lambda>database.
       list_indexes E database)
     else raiseE (Exn ValueError (''Unknown tool: '' @ name)))"

text \<open>\<open>call_tool\<close>: the dispatch runs inside \<open>try\<close>; \<open>except Exception as e\<close> turns
  whatever it raises into one text block.\<close>

definition call_tool :: "'w env \<Rightarrow> string \<Rightarrow> arguments \<Rightarrow> (content list, 'w) run" where
  "call_tool E name arguments =
     catchE (call_tool_body E name arguments)
       (\<lambda>e. returnE [TextContent (''Error: '' @ str e)])"

section \<open>Process\<close>

text \<open>A new \<open>CouchDBServer\<close> holds no handle. \<open>main\<close> tries \<open>connect\<close> once and, when
  that raises \<open>ConnectionError\<close>, prints a warning and goes on; then tool calls are
  served one at a time.\<close>

definition init :: "string \<Rightarrow> 'w \<Rightarrow> 'w state" where
  "init u w = \<lparr>url = u, couch = None, world = w, calls = []\<rparr>"

definition startup :: "'w env \<Rightarrow> (unit, 'w) run" where
  "startup E =
     catchE (bindE (connect E) (\<lambda>_. returnE ()))
       (\<lambda>e. if class_of e = ConnectionError then returnE () else raiseE e)"

fun serve :: "'w env \<Rightarrow> (string \<times> arguments) list \<Rightarrow> (content list list, 'w) run" where
  "serve E [] s = (Inr [], s)"
| "serve E ((name, arguments) # reqs) s =
     (case call_tool E name arguments s of
        (Inl e, s') \<Rightarrow> (Inl e, s')
      | (Inr out, s') \<Rightarrow>
          (case serve E reqs s' of
             (Inl e, s'') \<Rightarrow> (Inl e, s'')
           | (Inr outs, s'') \<Rightarrow> (Inr (out # outs), s'')))"

section \<open>An environment to run the handlers in\<close>

text \<open>
  A small in-memory server for evaluating the handlers at concrete inputs: databases
  hold documents under their \<open>_id\<close>; a write must carry the stored \<open>_rev\<close> (none for a new
  document) or is answered with a conflict; a query selects by equality on top-level
  fields and carries a warning while the database has no index. \<open>alive\<close> says whether the
  server answers at all, \<open>has_find\<close> whether the installed driver offers
  \<open>Database.find\<close>, \<open>query_fault\<close> an error with which the query endpoint answers.
  The driver's raw requests \<open>post_json\<close> and \<open>get_json\<close> return the tuple
  \<open>(status, headers, data)\<close>: the component at index 1, which is what the handlers
  read, is the response headers; the decoded body is at index 2.
\<close>

record store =
  alive :: bool
  has_find :: bool
  query_fault :: "exn option"
  dbs :: "(string \<times> (string \<times> dict) list) list"
  indexes :: "dict list"
  writes :: nat

fun digits :: "nat \<Rightarrow> string" where
  "digits n = (if n < 10 then [''0123456789'' ! n]
               else digits (n div 10) @ [''0123456789'' ! (n mod 10)])"

declare digits.simps [simp del]

fun join :: "string \<Rightarrow> string list \<Rightarrow> string" where
  "join sep [] = []"
| "join sep [x] = x"
| "join sep (x # y # ys) = x @ sep @ join sep (y # ys)"

primrec render :: "json \<Rightarrow> string" where
  "render JNull = ''null''"
| "render (JBool b) = (if b then ''true'' else ''false'')"
| "render (JInt i) = (if i < 0 then CHR ''-'' # digits (nat (- i)) else digits (nat i))"
| "render (JStr s) = CHR 0x22 # s @ [CHR 0x22]"
| "render (JList xs) = ''['' @ join '', '' (map render xs) @ '']''"
| "render (JDict d) =
     ''{'' @ join '', '' (map (\<lambda>(k, v). CHR 0x22 # k @ [CHR 0x22] @ '': '' @ v)
                              (map (map_prod id render) d)) @ ''}''"

definition render_names :: "string list \<Rightarrow> string" where
  "render_names xs = ''['' @ join '', '' (map quoted xs) @ '']''"

definition mem_new :: "string \<Rightarrow> store \<Rightarrow> (exn + handle) \<times> store" where
  "mem_new u w = (Inr 0, w)"

text \<open>A request to a server that is down is refused.\<close>

definition online :: "(store \<Rightarrow> (exn + 'a) \<times> store) \<Rightarrow> store \<Rightarrow> (exn + 'a) \<times> store" where
  "online f w =
     (if alive w then f w
      else (Inl (Exn ConnectionError ''[Errno 111] Connection refused''), w))"

definition mem_version :: "store \<Rightarrow> (exn + string) \<times> store" where
  "mem_version w = (Inr ''3.3.3'', w)"

definition mem_iter :: "store \<Rightarrow> (exn + string list) \<times> store" where
  "mem_iter w = (Inr (map fst (dbs w)), w)"

definition mem_create :: "string \<Rightarrow> store \<Rightarrow> (exn + unit) \<times> store" where
  "mem_create name w =
     (case map_of (dbs w) name of
        Some _ \<Rightarrow> (Inl (Exn PreconditionFailed ''file_exists''), w)
      | None \<Rightarrow> (Inr (), w\<lparr>dbs := dbs w @ [(name, [])]\<rparr>))"

definition mem_delete :: "string \<Rightarrow> store \<Rightarrow> (exn + unit) \<times> store" where
  "mem_delete name w =
     (case map_of (dbs w) name of
        None \<Rightarrow> (Inl (Exn ResourceNotFound ''not_found''), w)
      | Some _ \<Rightarrow> (Inr (), w\<lparr>dbs := AList.delete name (dbs w)\<rparr>))"

definition mem_getitem :: "string \<Rightarrow> store \<Rightarrow> (exn + unit) \<times> store" where
  "mem_getitem name w =
     (case map_of (dbs w) name of
        None \<Rightarrow> (Inl (Exn ResourceNotFound ''not_found''), w)
      | Some _ \<Rightarrow> (Inr (), w))"

definition documents_of :: "store \<Rightarrow> string \<Rightarrow> (string \<times> dict) list" where
  "documents_of w database = (case map_of (dbs w) database of None \<Rightarrow> [] | Some ds \<Rightarrow> ds)"

definition mem_save :: "string \<Rightarrow> dict \<Rightarrow> store \<Rightarrow> (exn + string \<times> string) \<times> store" where
  "mem_save database doc w =
     (let i = (case map_of doc ''_id'' of Some (JStr x) \<Rightarrow> x
               | _ \<Rightarrow> ''doc-'' @ digits (writes w));
          ds = documents_of w database;
          r = digits (Suc (writes w)) @ ''-rev''
      in if map_of doc ''_rev'' = map_option (\<lambda>d. dict_get d ''_rev'') (map_of ds i)
         then (Inr (i, r),
               w\<lparr>dbs := AList.update database
                          (AList.update i
                             (dict_set ''_rev'' (JStr r) (dict_set ''_id'' (JStr i) doc)) ds)
                          (dbs w),
                 writes := Suc (writes w)\<rparr>)
         else (Inl (Exn ResourceConflict ''Document update conflict.''), w))"

definition mem_get :: "string \<Rightarrow> string \<Rightarrow> store \<Rightarrow> (exn + dict) \<times> store" where
  "mem_get database doc_id w =
     (case map_of (documents_of w database) doc_id of
        None \<Rightarrow> (Inl (Exn ResourceNotFound ''missing''), w)
      | Some d \<Rightarrow> (Inr d, w))"

definition mem_delete_doc :: "string \<Rightarrow> dict \<Rightarrow> store \<Rightarrow> (exn + unit) \<times> store" where
  "mem_delete_doc database doc w =
     (let ds = documents_of w database in
      case dict_get doc ''_id'' of
        JStr i \<Rightarrow>
          (case map_of ds i of
             None \<Rightarrow> (Inl (Exn ResourceNotFound ''missing''), w)
           | Some d \<Rightarrow>
               if dict_get d ''_rev'' = dict_get doc ''_rev''
               then (Inr (), w\<lparr>dbs := AList.update database (AList.delete i ds) (dbs w),
                                writes := Suc (writes w)\<rparr>)
               else (Inl (Exn ResourceConflict ''Document update conflict.''), w))
      | _ \<Rightarrow> (Inl (Exn ResourceNotFound ''missing''), w))"

definition matches :: "dict \<Rightarrow> dict \<Rightarrow> bool" where
  "matches selector doc = list_all (\<lambda>(k, v). map_of doc k = Some v) selector"

definition select :: "store \<Rightarrow> string \<Rightarrow> dict \<Rightarrow> dict list" where
  "select w database q =
     (let sel = (case dict_get q ''selector'' of JDict d \<Rightarrow> d | _ \<Rightarrow> []);
          lim = (case dict_get q ''limit'' of JInt n \<Rightarrow> nat n | _ \<Rightarrow> 25);
          skp = (case dict_get q ''skip'' of JInt n \<Rightarrow> nat n | _ \<Rightarrow> 0)
      in take lim (drop skp (filter (matches sel) (map snd (documents_of w database)))))"

definition no_index_warning :: string where
  "no_index_warning = ''No matching index found, create an index to optimize query time.''"

definition find_response :: "store \<Rightarrow> string \<Rightarrow> dict \<Rightarrow> dict" where
  "find_response w database q =
     [(''docs'', JList (map JDict (select w database q)))]
     @ (if indexes w = [] then [(''warning'', JStr no_index_warning)] else [])"

definition mem_find :: "string \<Rightarrow> dict \<Rightarrow> store \<Rightarrow> (exn + dict list) \<times> store" where
  "mem_find database q w =
     (if \<not> has_find w
      then (Inl (Exn AttributeError
                 (quoted ''Database'' @ '' object has no attribute '' @ quoted ''find'')), w)
      else online (\<lambda>w. case query_fault w of
                          Some e \<Rightarrow> (Inl e, w)
                        | None \<Rightarrow> (Inr (select w database q), w)) w)"

definition mem_view :: "string \<Rightarrow> string \<Rightarrow> dict \<Rightarrow> store \<Rightarrow> (exn + row list) \<times> store" where
  "mem_view database view params w =
     (let rows = map (\<lambda>(i, d). \<lparr>row_id = JStr i, row_key = JStr i,
                                row_value = JDict [(''rev'', dict_get d ''_rev'')],
                                row_doc = (if dict_get params ''include_docs'' = JBool True
                                           then JDict d else JNull)\<rparr>)
                     (documents_of w database)
      in (Inr (case dict_get params ''limit'' of JInt n \<Rightarrow> take (nat n) rows | _ \<Rightarrow> rows), w))"

definition response_headers :: dict where
  "response_headers =
     [(''content-type'', JStr ''application/json''), (''server'', JStr ''CouchDB/3.3.3'')]"

definition raw_post ::
    "string \<Rightarrow> string \<Rightarrow> dict \<Rightarrow> store \<Rightarrow> (exn + int \<times> dict \<times> dict) \<times> store" where
  "raw_post database path body w =
     (if path = ''_find'' then
        (case query_fault w of
           Some e \<Rightarrow> (Inl e, w)
         | None \<Rightarrow> (Inr (200, response_headers, find_response w database body), w))
      else if path = ''_index'' then
        (Inr (200, response_headers,
              [(''result'', JStr ''created''),
               (''id'', JStr (''_design/idx-'' @ digits (length (indexes w)))),
               (''name'', dict_get_default body ''name''
                            (JStr (''idx-'' @ digits (length (indexes w)))))]),
         w\<lparr>indexes := indexes w @ [body]\<rparr>)
      else (Inl (Exn ResourceNotFound ''not_found''), w))"

definition raw_get ::
    "string \<Rightarrow> string \<Rightarrow> store \<Rightarrow> (exn + int \<times> dict \<times> dict) \<times> store" where
  "raw_get database path w =
     (if path = ''_index'' then
        (Inr (200, response_headers,
              [(''total_rows'', JInt (int (length (indexes w)))),
               (''indexes'', JList (map JDict (indexes w)))]), w)
      else (Inl (Exn ResourceNotFound ''not_found''), w))"

text \<open>\<open>result[1]\<close> of a raw request: the headers.\<close>

definition index1 :: "(exn + int \<times> dict \<times> dict) \<times> store \<Rightarrow> (exn + dict) \<times> store" where
  "index1 r = (case r of (Inl e, w) \<Rightarrow> (Inl e, w)
               | (Inr (status, headers, data), w) \<Rightarrow> (Inr headers, w))"

definition mem_post_json :: "string \<Rightarrow> string \<Rightarrow> dict \<Rightarrow> store \<Rightarrow> (exn + dict) \<times> store" where
  "mem_post_json database path body w = index1 (raw_post database path body w)"

definition mem_get_json :: "string \<Rightarrow> string \<Rightarrow> store \<Rightarrow> (exn + dict) \<times> store" where
  "mem_get_json database path w = index1 (raw_get database path w)"

definition mem_env :: "store env" where
  "mem_env =
     \<lparr>server_new = mem_new,
      server_version = online mem_version,
      server_iter = online mem_iter,
      server_create = (\<lambda>name. online (mem_create name)),
      server_delete = (\<lambda>name. online (mem_delete name)),
      server_getitem = (\<lambda>name. online (mem_getitem name)),
      db_save = (\<lambda>database doc. online (mem_save database doc)),
      db_getitem = (\<lambda>database doc_id. online (mem_get database doc_id)),
      db_delete = (\<lambda>database doc. online (mem_delete_doc database doc)),
      db_find = mem_find,
      db_view = (\<lambda>database view params. online (mem_view database view params)),
      db_post_json = (\<lambda>database path body. online (mem_post_json database path body)),
      db_get_json = (\<lambda>database path. online (mem_get_json database path)),
      json_dumps = render,
      str_list = render_names\<rparr>"

text \<open>A running server with one empty database \<open>notes\<close>, and one holding a document.\<close>

definition empty_store :: store where
  "empty_store = \<lparr>alive = True, has_find = True, query_fault = None,
                   dbs = [(''notes'', [])], indexes = [], writes = 0\<rparr>"

definition note1 :: dict where
  "note1 = [(''_id'', JStr ''n1''), (''title'', JStr ''first''), (''_rev'', JStr ''1-rev'')]"

definition one_store :: store where
  "one_store = \<lparr>alive = True, has_find = True, query_fault = None,
                 dbs = [(''notes'', [(''n1'', note1)])], indexes = [], writes = 1\<rparr>"

definition no_arguments :: arguments where
  "no_arguments =
     \<lparr>arg_name = None, arg_database = None, arg_document = None, arg_doc_id = None,
      arg_rev = None, arg_query = None, arg_limit = None, arg_skip = None,
      arg_include_docs = None, arg_fields = None, arg_index_name = None\<rparr>"

text \<open>The state in which \<open>main\<close> starts serving: a new object after \<open>startup\<close>.\<close>

definition started :: "'w env \<Rightarrow> string \<Rightarrow> 'w \<Rightarrow> 'w state" where
  "started E u w = snd (startup E (init u w))"

section \<open>Bookkeeping for the connection handle\<close>

text \<open>The calls that \<open>connect\<close> makes, and the property of a computation that it leaves
  a held handle in place and makes no such call.\<close>

fun is_connect :: "call \<Rightarrow> bool" where
  "is_connect (ServerNew u) = True"
| "is_connect ServerVersion = True"
| "is_connect _ = False"

definition keeps_handle :: "handle \<Rightarrow> ('a, 'w) run \<Rightarrow> bool" where
  "keeps_handle h m =
     (\<forall>s. couch s = Some h \<longrightarrow>
          couch (snd (m s)) = Some h \<and>
          filter is_connect (calls (snd (m s))) = filter is_connect (calls s))"

text \<open>What a computation returns when it returns, and the shape of a handler's result:
  a list of exactly one text block.\<close>

definition yields :: "('a \<Rightarrow> bool) \<Rightarrow> ('a, 'w) run \<Rightarrow> bool" where
  "yields P m = (\<forall>s x s'. m s = (Inr x, s') \<longrightarrow> P x)"

fun one_text :: "content list \<Rightarrow> bool" where
  "one_text [TextContent t] = True"
| "one_text _ = False"

text \<open>Inputs used in the examples below.\<close>

definition local_url :: string where
  "local_url = ''http://localhost:5984''"

definition down_store :: store where
  "down_store = empty_store\<lparr>alive := False\<rparr>"

section \<open>Basic facts about computations\<close>

lemmas run_defs = bindE_def catchE_def returnE_def raiseE_def liftE_def lib_def Let_def

lemma get_server_held: "couch s = Some h \<Longrightarrow> get_server E s = (Inr h, s)"
  by (simp add: get_server_def bindE_def returnE_def)

lemma get_server_couch: "get_server E s = (Inr h, s1) \<Longrightarrow> couch s1 = Some h"
  by (auto simp: get_server_def run_defs split: if_splits prod.splits sum.splits option.splits)

lemma lookup_step:
  "server_getitem E database (world s1) = (r, w2) \<Longrightarrow>
   lib (ServerGetitem database) (server_getitem E database) s1 =
     (r, s1\<lparr>world := w2, calls := calls s1 @ [ServerGetitem database]\<rparr>)"
  by (simp add: lib_def)

lemma started_mem:
  "started mem_env u w =
     \<lparr>url = u, couch = Some 0, world = w, calls = [ServerNew u, ServerVersion]\<rparr>"
  by (simp add: started_def startup_def init_def connect_def assign_couch_def mem_env_def
      mem_new_def mem_version_def online_def run_defs)

section \<open>Unknown tools\<close>

text \<open>
  C7. For every tool name that is not in the catalog and every argument payload,
  \<open>call_tool\<close> returns one text block, \<open>Error: Unknown tool: <name>\<close>, which contains
  \<open>Unknown tool\<close>; nothing is raised past the dispatcher and the state is untouched.
\<close>

theorem call_tool_unknown:
  assumes "name \<notin> set (map tool_name list_tools)"
  shows "call_tool E name arguments s =
           (Inr [TextContent (''Error: Unknown tool: '' @ name)], s)
         \<and> sublist ''Unknown tool'' (''Error: Unknown tool: '' @ name)"
proof -
  have body: "call_tool_body E name arguments s =
                (Inl (Exn ValueError (''Unknown tool: '' @ name)), s)"
    using assms by (simp add: call_tool_body_def list_tools_def raiseE_def)
  have "sublist ''Unknown tool'' (''Error: '' @ ''Unknown tool'' @ '': '' @ name)"
    unfolding sublist_def by blast
  with body show ?thesis
    by (simp add: call_tool_def catchE_def returnE_def)
qed

theorem call_tool_unknown_witness:
  "''couchdb_drop_all'' \<notin> set (map tool_name list_tools)
   \<and> call_tool mem_env ''couchdb_drop_all'' no_arguments (started mem_env local_url empty_store) =
       (Inr [TextContent ''Error: Unknown tool: couchdb_drop_all''],
        started mem_env local_url empty_store)"
proof -
  have n: "''couchdb_drop_all'' \<notin> set (map tool_name list_tools)"
    by (simp add: list_tools_def)
  from call_tool_unknown [OF n, of mem_env no_arguments "started mem_env local_url empty_store"] n
  show ?thesis by simp
qed

section \<open>Writing documents\<close>

text \<open>What a handler does once the server handle is there and the database was looked up:
  the state in which the document operation starts.\<close>

lemma sublist_refetch: "sublist ''please get the latest revision'' update_conflict_message"
proof -
  have "update_conflict_message =
          ''Document update conflict - document was modified, ''
          @ ''please get the latest revision'' @ []"
    by (simp add: update_conflict_message_def)
  then show ?thesis unfolding sublist_def by blast
qed

text \<open>
  C5. An \<open>update_document\<close> call on an existing database whose save the database rejects
  with its conflict signal (the answer to a revision that is not the stored one) returns
  the conflict message, which tells the caller to get the latest revision. The handler
  issued the database lookup and exactly one \<open>save\<close>, so nothing is retried, and the
  server is left in the state in which the rejected \<open>save\<close> left it: the handler writes
  nothing else.
\<close>

theorem update_document_conflict:
  assumes srv: "get_server E s = (Inr h, s1)"
    and db: "server_getitem E database (world s1) = (Inr (), w2)"
    and d: "d = (if has_key document ''_id'' then document
                 else dict_set ''_id'' (JStr doc_id) document)"
    and save: "db_save E database d w2 = (Inl e, w3)"
    and conflict: "class_of e = ResourceConflict"
  shows "update_document E database doc_id document s =
           (Inr [TextContent update_conflict_message],
            s1\<lparr>world := w3,
               calls := calls s1 @ [ServerGetitem database, DbSave database d]\<rparr>)
         \<and> sublist ''please get the latest revision'' update_conflict_message"
proof -
  note g = lookup_step [OF db]
  have run: "update_document E database doc_id document s =
           (Inr [TextContent update_conflict_message],
            s1\<lparr>world := w3,
               calls := calls s1 @ [ServerGetitem database, DbSave database d]\<rparr>)"
  proof (cases "has_key document ''_id''")
    case True
    with d save have "db_save E database document w2 = (Inl e, w3)" by simp
    with True d srv g conflict show ?thesis
      by (simp add: update_document_def run_defs)
  next
    case False
    with d save
    have "db_save E database (dict_set ''_id'' (JStr doc_id) document) w2 = (Inl e, w3)"
      by simp
    with False d srv g conflict show ?thesis
      by (simp add: update_document_def run_defs)
  qed
  with sublist_refetch show ?thesis by simp
qed

text \<open>A stale revision against the in-memory server: the stored note is as before.\<close>

theorem update_document_conflict_witness:
  "update_document mem_env ''notes'' ''n1''
       [(''_rev'', JStr ''0-stale''), (''title'', JStr ''second'')]
       (started mem_env local_url one_store) =
     (Inr [TextContent update_conflict_message],
      (started mem_env local_url one_store)
        \<lparr>world := one_store,
         calls := [ServerNew local_url, ServerVersion, ServerGetitem ''notes'',
                   DbSave ''notes'' [(''_rev'', JStr ''0-stale''), (''title'', JStr ''second''),
                                     (''_id'', JStr ''n1'')]]\<rparr>)"
proof -
  let ?s = "started mem_env local_url one_store"
  let ?d = "[(''_rev'', JStr ''0-stale''), (''title'', JStr ''second''), (''_id'', JStr ''n1'')]"
  have srv: "get_server mem_env ?s = (Inr 0, ?s)"
    by (simp add: started_mem get_server_held)
  have db: "server_getitem mem_env ''notes'' (world ?s) = (Inr (), one_store)"
    unfolding started_mem
    by (simp add: mem_env_def online_def mem_getitem_def one_store_def)
  have d: "?d = (if has_key [(''_rev'', JStr ''0-stale''), (''title'', JStr ''second'')] ''_id''
                 then [(''_rev'', JStr ''0-stale''), (''title'', JStr ''second'')]
                 else dict_set ''_id'' (JStr ''n1'')
                        [(''_rev'', JStr ''0-stale''), (''title'', JStr ''second'')])"
    by (simp add: has_key_def dict_set_def)
  have save: "db_save mem_env ''notes'' ?d one_store =
                (Inl (Exn ResourceConflict ''Document update conflict.''), one_store)"
    by (simp add: mem_env_def online_def mem_save_def one_store_def documents_of_def
        note1_def dict_get_def Let_def)
  from update_document_conflict [OF srv db d save] show ?thesis
    by (simp add: started_mem)
qed

text \<open>
  C10. A \<open>create_document\<close> call on an existing database whose save is rejected with a
  revision conflict returns \<open>Error creating document: <details>\<close>: the handler has no
  clause for the conflict, so the text is not the refetch guidance of \<open>update_document\<close>,
  and the \<open>save\<close> was issued once.
\<close>

theorem create_document_conflict:
  assumes srv: "get_server E s = (Inr h, s1)"
    and db: "server_getitem E database (world s1) = (Inr (), w2)"
    and d: "d = (if truthy_str doc_id
                 then dict_update [(''_id'', JStr (the doc_id))] document else document)"
    and save: "db_save E database d w2 = (Inl e, w3)"
    and conflict: "class_of e = ResourceConflict"
  shows "create_document E database document doc_id s =
           (Inr [TextContent (''Error creating document: '' @ str e)],
            s1\<lparr>world := w3,
               calls := calls s1 @ [ServerGetitem database, DbSave database d]\<rparr>)
         \<and> ''Error creating document: '' @ str e \<noteq> update_conflict_message"
proof -
  note g = lookup_step [OF db]
  have run: "create_document E database document doc_id s =
           (Inr [TextContent (''Error creating document: '' @ str e)],
            s1\<lparr>world := w3,
               calls := calls s1 @ [ServerGetitem database, DbSave database d]\<rparr>)"
  proof (cases "truthy_str doc_id")
    case True
    with d save
    have "db_save E database (dict_update [(''_id'', JStr (the doc_id))] document) w2
            = (Inl e, w3)"
      by simp
    with True d srv g conflict show ?thesis
      by (simp add: create_document_def run_defs)
  next
    case False
    with d save have "db_save E database document w2 = (Inl e, w3)" by simp
    with False d srv g conflict show ?thesis
      by (simp add: create_document_def run_defs)
  qed
  then show ?thesis by (simp add: update_conflict_message_def)
qed

text \<open>Creating under the id of a stored note.\<close>

theorem create_document_conflict_witness:
  "create_document mem_env ''notes'' [(''title'', JStr ''second'')] (Some ''n1'')
       (started mem_env local_url one_store) =
     (Inr [TextContent ''Error creating document: Document update conflict.''],
      (started mem_env local_url one_store)
        \<lparr>world := one_store,
         calls := [ServerNew local_url, ServerVersion, ServerGetitem ''notes'',
                   DbSave ''notes'' [(''_id'', JStr ''n1''), (''title'', JStr ''second'')]]\<rparr>)"
proof -
  let ?s = "started mem_env local_url one_store"
  let ?d = "[(''_id'', JStr ''n1''), (''title'', JStr ''second'')]"
  have srv: "get_server mem_env ?s = (Inr 0, ?s)"
    by (simp add: started_mem get_server_held)
  have db: "server_getitem mem_env ''notes'' (world ?s) = (Inr (), one_store)"
    unfolding started_mem
    by (simp add: mem_env_def online_def mem_getitem_def one_store_def)
  have d: "?d = (if truthy_str (Some ''n1'')
                 then dict_update [(''_id'', JStr (the (Some ''n1'')))] [(''title'', JStr ''second'')]
                 else [(''title'', JStr ''second'')])"
    by (simp add: dict_update_def dict_set_def)
  have save: "db_save mem_env ''notes'' ?d one_store =
                (Inl (Exn ResourceConflict ''Document update conflict.''), one_store)"
    by (simp add: mem_env_def online_def mem_save_def one_store_def documents_of_def
        note1_def dict_get_def Let_def)
  from create_document_conflict [OF srv db d save] show ?thesis
    by (simp add: started_mem)
qed

section \<open>Creating documents\<close>

lemma map_of_dict_update_other:
  "k \<notin> fst ` set d2 \<Longrightarrow> map_of (dict_update d1 d2) k = map_of d1 k"
proof (induction d2 arbitrary: d1)
  case Nil
  then show ?case by (simp add: dict_update_def)
next
  case (Cons p d2)
  obtain a b where p: "p = (a, b)" by (cases p)
  from Cons.prems p have "k \<noteq> a" and "k \<notin> fst ` set d2" by auto
  with Cons.IH [of "dict_set a b d1"] p show ?case
    by (simp add: dict_update_def dict_set_def update_conv')
qed

lemma map_of_dict_update_distinct:
  "distinct (map fst d2) \<Longrightarrow>
   map_of (dict_update d1 d2) k = (case map_of d2 k of Some v \<Rightarrow> Some v | None \<Rightarrow> map_of d1 k)"
proof (induction d2 arbitrary: d1)
  case Nil
  then show ?case by (simp add: dict_update_def)
next
  case (Cons p d2)
  obtain a b where p: "p = (a, b)" by (cases p)
  from Cons.prems p have dist: "distinct (map fst d2)" and fresh: "a \<notin> fst ` set d2" by auto
  have step: "dict_update d1 (p # d2) = dict_update (dict_set a b d1) d2"
    by (simp add: dict_update_def p)
  show ?case
  proof (cases "k = a")
    case True
    with fresh have none: "map_of d2 k = None"
      by (simp add: map_of_eq_None_iff)
    from True fresh have "map_of (dict_update (dict_set a b d1) d2) k = map_of (dict_set a b d1) k"
      by (simp add: map_of_dict_update_other)
    with True p step show ?thesis
      by (simp add: dict_set_def update_conv')
  next
    case False
    with Cons.IH [OF dist, of "dict_set a b d1"] p step show ?thesis
      by (simp add: dict_set_def update_conv' split: option.splits)
  qed
qed

text \<open>
  C2, as the code has it. A \<open>create_document\<close> call that succeeds returns the id and the
  rev token that the database's \<open>save\<close> returned. Without a \<open>doc_id\<close> (absent or empty)
  the document is saved as given. With a non-empty \<open>doc_id\<close> the document saved is
  \<open>{"_id": doc_id, **document}\<close>: its \<open>_id\<close> is \<open>doc_id\<close> when the input document has no
  \<open>_id\<close> of its own (so the output echoes \<open>doc_id\<close> when the database returns the id it
  stored under), and it is the input document's own \<open>_id\<close> when that has one.
\<close>

theorem create_document_success:
  assumes srv: "get_server E s = (Inr h, s1)"
    and db: "server_getitem E database (world s1) = (Inr (), w2)"
    and d: "d = (if truthy_str doc_id
                 then dict_update [(''_id'', JStr (the doc_id))] document else document)"
    and save: "db_save E database d w2 = (Inr (i, r), w3)"
  shows "create_document E database document doc_id s =
           (Inr [TextContent (json_dumps E (JDict
              [(''id'', JStr i), (''rev'', JStr r),
               (''message'', JStr ''Document created successfully'')]))],
            s1\<lparr>world := w3,
               calls := calls s1 @ [ServerGetitem database, DbSave database d]\<rparr>)
         \<and> (\<not> truthy_str doc_id \<longrightarrow> d = document)
         \<and> (truthy_str doc_id \<and> \<not> has_key document ''_id'' \<longrightarrow>
              dict_get d ''_id'' = JStr (the doc_id)
              \<and> (JStr i = dict_get d ''_id'' \<longrightarrow> i = the doc_id))
         \<and> (truthy_str doc_id \<and> has_key document ''_id'' \<and> distinct (map fst document) \<longrightarrow>
              dict_get d ''_id'' = dict_get document ''_id'')"
proof -
  note g = lookup_step [OF db]
  have run: "create_document E database document doc_id s =
           (Inr [TextContent (json_dumps E (JDict
              [(''id'', JStr i), (''rev'', JStr r),
               (''message'', JStr ''Document created successfully'')]))],
            s1\<lparr>world := w3,
               calls := calls s1 @ [ServerGetitem database, DbSave database d]\<rparr>)"
  proof (cases "truthy_str doc_id")
    case True
    with d save
    have "db_save E database (dict_update [(''_id'', JStr (the doc_id))] document) w2
            = (Inr (i, r), w3)"
      by simp
    with True d srv g show ?thesis
      by (simp add: create_document_def run_defs)
  next
    case False
    with d save have "db_save E database document w2 = (Inr (i, r), w3)" by simp
    with False d srv g show ?thesis
      by (simp add: create_document_def run_defs)
  qed
  have plain: "\<not> truthy_str doc_id \<longrightarrow> d = document"
    using d by simp
  have injected: "truthy_str doc_id \<and> \<not> has_key document ''_id'' \<longrightarrow>
      dict_get d ''_id'' = JStr (the doc_id)
      \<and> (JStr i = dict_get d ''_id'' \<longrightarrow> i = the doc_id)"
  proof (intro impI, elim conjE)
    assume t: "truthy_str doc_id" and n: "\<not> has_key document ''_id''"
    from n have "''_id'' \<notin> fst ` set document"
      by (simp add: has_key_def map_of_eq_None_iff)
    then have "map_of (dict_update [(''_id'', JStr (the doc_id))] document) ''_id''
                 = Some (JStr (the doc_id))"
      by (simp add: map_of_dict_update_other)
    with t d have "dict_get d ''_id'' = JStr (the doc_id)"
      by (simp add: dict_get_def)
    then show "dict_get d ''_id'' = JStr (the doc_id)
               \<and> (JStr i = dict_get d ''_id'' \<longrightarrow> i = the doc_id)"
      by simp
  qed
  have own: "truthy_str doc_id \<and> has_key document ''_id'' \<and> distinct (map fst document) \<longrightarrow>
      dict_get d ''_id'' = dict_get document ''_id''"
  proof (intro impI, elim conjE)
    assume t: "truthy_str doc_id" and k: "has_key document ''_id''"
      and dist: "distinct (map fst document)"
    from k obtain v where v: "map_of document ''_id'' = Some v"
      by (auto simp: has_key_def)
    with map_of_dict_update_distinct [OF dist, of "[(''_id'', JStr (the doc_id))]" "''_id''"]
    have "map_of (dict_update [(''_id'', JStr (the doc_id))] document) ''_id'' = Some v"
      by simp
    with t d v show "dict_get d ''_id'' = dict_get document ''_id''"
      by (simp add: dict_get_def)
  qed
  from run plain injected own show ?thesis by blast
qed

lemma json_dumps_mem: "json_dumps mem_env = render"
  by (simp add: mem_env_def)

text \<open>A new note stored under the id the caller chose.\<close>

theorem create_document_success_witness:
  "create_document mem_env ''notes'' [(''title'', JStr ''first'')] (Some ''n1'')
       (started mem_env local_url empty_store) =
     (Inr [TextContent (render (JDict
        [(''id'', JStr ''n1''), (''rev'', JStr ''1-rev''),
         (''message'', JStr ''Document created successfully'')]))],
      (started mem_env local_url empty_store)
        \<lparr>world := one_store,
         calls := [ServerNew local_url, ServerVersion, ServerGetitem ''notes'',
                   DbSave ''notes'' [(''_id'', JStr ''n1''), (''title'', JStr ''first'')]]\<rparr>)"
proof -
  let ?s = "started mem_env local_url empty_store"
  let ?d = "[(''_id'', JStr ''n1''), (''title'', JStr ''first'')]"
  have srv: "get_server mem_env ?s = (Inr 0, ?s)"
    by (simp add: started_mem get_server_held)
  have db: "server_getitem mem_env ''notes'' (world ?s) = (Inr (), empty_store)"
    unfolding started_mem
    by (simp add: mem_env_def online_def mem_getitem_def empty_store_def)
  have d: "?d = (if truthy_str (Some ''n1'')
                 then dict_update [(''_id'', JStr (the (Some ''n1'')))] [(''title'', JStr ''first'')]
                 else [(''title'', JStr ''first'')])"
    by (simp add: dict_update_def dict_set_def)
  have save: "db_save mem_env ''notes'' ?d empty_store = (Inr (''n1'', ''1-rev''), one_store)"
    by (simp add: mem_env_def online_def mem_save_def empty_store_def one_store_def
        documents_of_def note1_def dict_get_def dict_set_def Let_def digits.simps)
  from create_document_success [OF srv db d save] show ?thesis
    by (simp add: started_mem json_dumps_mem)
qed

text \<open>
  C2 as stated fails for a document that has an \<open>_id\<close> of its own: with \<open>doc_id = "y"\<close>
  and the document \<open>{"_id": "x"}\<close> the document saved has \<open>_id = "x"\<close> and the output
  carries \<open>x\<close>, not \<open>y\<close>.
\<close>

theorem create_document_echo_counterexample:
  "call_tool mem_env ''couchdb_create_document''
       (no_arguments\<lparr>arg_database := Some ''notes'',
                     arg_document := Some [(''_id'', JStr ''x'')],
                     arg_doc_id := Some ''y''\<rparr>)
       (started mem_env local_url empty_store) =
     (Inr [TextContent (render (JDict
        [(''id'', JStr ''x''), (''rev'', JStr ''1-rev''),
         (''message'', JStr ''Document created successfully'')]))],
      \<lparr>url = local_url, couch = Some 0,
       world = empty_store\<lparr>dbs := [(''notes'',
                 [(''x'', [(''_id'', JStr ''x''), (''_rev'', JStr ''1-rev'')])])],
               writes := 1\<rparr>,
       calls = [ServerNew local_url, ServerVersion, ServerGetitem ''notes'',
                DbSave ''notes'' [(''_id'', JStr ''x'')]]\<rparr>)"
  unfolding started_mem
  by (simp add: call_tool_def call_tool_body_def subscript_def no_arguments_def
      create_document_def get_server_def dict_update_def dict_set_def dict_get_def
      mem_env_def online_def mem_getitem_def mem_save_def documents_of_def empty_store_def
      digits.simps run_defs)

section \<open>Round trip\<close>

text \<open>
  C6. On an existing database, \<open>create_document(doc)\<close> returns the id \<open>i\<close> and rev \<open>r\<close>
  that the database's \<open>save\<close> returned, and \<open>get_document\<close> on that id asks the same
  database for \<open>i\<close> and returns the stored document as it is. So, the database keeping
  what it was given under \<open>i\<close> with \<open>_id\<close> and \<open>_rev\<close> set, the document returned is
  \<open>doc\<close> extended with \<open>_id = i\<close> and \<open>_rev = r\<close>.
\<close>

theorem create_get_roundtrip:
  assumes srv: "get_server E s = (Inr h, s1)"
    and db: "server_getitem E database (world s1) = (Inr (), w2)"
    and save: "db_save E database document w2 = (Inr (i, r), w3)"
    and db': "server_getitem E database w3 = (Inr (), w4)"
    and fetch: "db_getitem E database i w4 = (Inr stored, w5)"
    and kept: "map_of stored = (map_of document)(''_id'' \<mapsto> JStr i, ''_rev'' \<mapsto> JStr r)"
  shows "\<exists>s3 s5.
           create_document E database document None s =
             (Inr [TextContent (json_dumps E (JDict
                [(''id'', JStr i), (''rev'', JStr r),
                 (''message'', JStr ''Document created successfully'')]))], s3)
         \<and> get_document E database i s3 =
             (Inr [TextContent (json_dumps E (JDict stored))], s5)
         \<and> calls s5 = calls s1 @ [ServerGetitem database, DbSave database document,
                                    ServerGetitem database, DbGetitem database i]
         \<and> map_of stored =
             map_of (dict_set ''_rev'' (JStr r) (dict_set ''_id'' (JStr i) document))"
proof -
  let ?s3 = "s1\<lparr>world := w3,
                calls := calls s1 @ [ServerGetitem database, DbSave database document]\<rparr>"
  let ?s5 = "s1\<lparr>world := w5,
                calls := calls s1 @ [ServerGetitem database, DbSave database document,
                                     ServerGetitem database, DbGetitem database i]\<rparr>"
  note g = lookup_step [OF db]
  have created: "create_document E database document None s =
             (Inr [TextContent (json_dumps E (JDict
                [(''id'', JStr i), (''rev'', JStr r),
                 (''message'', JStr ''Document created successfully'')]))], ?s3)"
    using srv g save by (simp add: create_document_def run_defs)
  have held: "get_server E ?s3 = (Inr h, ?s3)"
    using get_server_couch [OF srv] by (simp add: get_server_held)
  have g': "lib (ServerGetitem database) (server_getitem E database) ?s3 =
              (Inr (), ?s3\<lparr>world := w4, calls := calls ?s3 @ [ServerGetitem database]\<rparr>)"
    using db' by (simp add: lib_def)
  have fetched: "get_document E database i ?s3 =
                   (Inr [TextContent (json_dumps E (JDict stored))], ?s5)"
    using held g' fetch by (simp add: get_document_def run_defs)
  have same: "map_of stored =
                map_of (dict_set ''_rev'' (JStr r) (dict_set ''_id'' (JStr i) document))"
    using kept by (simp add: dict_set_def update_conv')
  from created fetched same show ?thesis
    by (intro exI [of _ ?s3] exI [of _ ?s5]) simp
qed

text \<open>A note without an id, stored by the in-memory server as \<open>doc-0\<close> and read back.\<close>

theorem create_get_roundtrip_witness:
  "\<exists>s3 s5.
     create_document mem_env ''notes'' [(''title'', JStr ''first'')] None
         (started mem_env local_url empty_store) =
       (Inr [TextContent (render (JDict
          [(''id'', JStr ''doc-0''), (''rev'', JStr ''1-rev''),
           (''message'', JStr ''Document created successfully'')]))], s3)
   \<and> get_document mem_env ''notes'' ''doc-0'' s3 =
       (Inr [TextContent (render (JDict
          [(''title'', JStr ''first''), (''_id'', JStr ''doc-0''),
           (''_rev'', JStr ''1-rev'')]))], s5)"
proof -
  let ?s = "started mem_env local_url empty_store"
  let ?doc = "[(''title'', JStr ''first'')]"
  let ?stored = "[(''title'', JStr ''first''), (''_id'', JStr ''doc-0''),
                  (''_rev'', JStr ''1-rev'')]"
  let ?w3 = "empty_store\<lparr>dbs := [(''notes'', [(''doc-0'', ?stored)])], writes := 1\<rparr>"
  have srv: "get_server mem_env ?s = (Inr 0, ?s)"
    by (simp add: started_mem get_server_held)
  have db: "server_getitem mem_env ''notes'' (world ?s) = (Inr (), empty_store)"
    unfolding started_mem
    by (simp add: mem_env_def online_def mem_getitem_def empty_store_def)
  have save: "db_save mem_env ''notes'' ?doc empty_store = (Inr (''doc-0'', ''1-rev''), ?w3)"
    by (simp add: mem_env_def online_def mem_save_def empty_store_def
        documents_of_def dict_get_def dict_set_def Let_def digits.simps)
  have db': "server_getitem mem_env ''notes'' ?w3 = (Inr (), ?w3)"
    by (simp add: mem_env_def online_def mem_getitem_def empty_store_def)
  have fetch: "db_getitem mem_env ''notes'' ''doc-0'' ?w3 = (Inr ?stored, ?w3)"
    by (simp add: mem_env_def online_def mem_get_def documents_of_def empty_store_def)
  have kept: "map_of ?stored =
                (map_of ?doc)(''_id'' \<mapsto> JStr ''doc-0'', ''_rev'' \<mapsto> JStr ''1-rev'')"
    by (simp add: fun_eq_iff)
  from create_get_roundtrip [OF srv db save db' fetch kept] show ?thesis
    by (simp add: json_dumps_mem) blast
qed

section \<open>Searching\<close>

text \<open>The primary path, from the state in which the handle is held: what the handler
  returns when \<open>db.find\<close> yields documents, and where it goes when \<open>db.find\<close> raises.\<close>

lemma search_primary:
  assumes srv: "get_server E s = (Inr h, s1)"
    and db: "server_getitem E database (world s1) = (Inr (), w2)"
    and find: "db_find E database (mango_query query lim skp) w2 = (Inr docs, w3)"
  shows "search_documents E database query lim skp s =
           (Inr [TextContent (json_dumps E (JDict
              ([(''docs'', JList (map JDict docs)), (''count'', JInt (int (length docs)))]
               @ (if docs = [] then [(''note'', JStr no_match_note)] else []))))],
            s1\<lparr>world := w3,
               calls := calls s1 @ [ServerGetitem database,
                                    DbFind database (mango_query query lim skp)]\<rparr>)"
  using srv lookup_step [OF db] find
  by (simp add: search_documents_def dict_set_def run_defs)

lemma search_primary_raises:
  assumes srv: "get_server E s = (Inr h, s1)"
    and db: "server_getitem E database (world s1) = (Inr (), w2)"
    and find: "db_find E database (mango_query query lim skp) w2 = (Inl e, w3)"
  shows "search_documents E database query lim skp s =
           (if class_of e = KeyError
            then (Inr [TextContent (''Database '' @ quoted database @ '' not found'')],
                  s1\<lparr>world := w3,
                     calls := calls s1 @ [ServerGetitem database,
                                          DbFind database (mango_query query lim skp)]\<rparr>)
            else if class_of e = AttributeError
            then search_documents_fallback E database query lim skp
                   (s1\<lparr>world := w3,
                      calls := calls s1 @ [ServerGetitem database,
                                           DbFind database (mango_query query lim skp)]\<rparr>)
            else (Inr [TextContent (''Error searching documents: '' @ str e)],
                  s1\<lparr>world := w3,
                     calls := calls s1 @ [ServerGetitem database,
                                          DbFind database (mango_query query lim skp)]\<rparr>))"
  using srv lookup_step [OF db] find
  by (simp add: search_documents_def run_defs)

text \<open>The fallback, once its own lookup of the database succeeded: whatever the raw
  request answers, it was issued with the body built from the handler's arguments, and
  nothing else is asked of the server.\<close>

lemma fallback_request:
  assumes held: "couch s = Some h"
    and db: "server_getitem E database (world s) = (Inr (), w4)"
    and post: "db_post_json E database ''_find'' (mango_query query lim skp) w4 = (r, w5)"
  shows "snd (search_documents_fallback E database query lim skp s) =
           s\<lparr>world := w5,
             calls := calls s @ [ServerGetitem database,
                                 DbPostJson database ''_find'' (mango_query query lim skp)]\<rparr>"
  using get_server_held [OF held, of E] lookup_step [OF db] post
  by (cases r; cases "py_len (dict_get_default (projr r) ''docs'' (JList []))")
     (simp_all add: search_documents_fallback_def run_defs)

lemma fallback_empty:
  assumes held: "couch s = Some h"
    and db: "server_getitem E database (world s) = (Inr (), w4)"
    and post: "db_post_json E database ''_find'' (mango_query query lim skp) w4
                 = (Inr result1, w5)"
    and len: "py_len (dict_get_default result1 ''docs'' (JList [])) = Inr 0"
  shows "fst (search_documents_fallback E database query lim skp s) =
           Inr [TextContent (json_dumps E (JDict
              ([(''docs'', dict_get_default result1 ''docs'' (JList [])), (''count'', JInt 0)]
               @ (if truthy (dict_get_default result1 ''warning'' JNull)
                  then [(''warning'', dict_get_default result1 ''warning'' JNull)] else [])
               @ [(''note'', JStr no_match_note)])))]"
  using get_server_held [OF held, of E] lookup_step [OF db] post len
  by (simp add: search_documents_fallback_def dict_set_def run_defs)

lemma catchE_returns:
  assumes "\<And>e s1. \<exists>out s'. h e s1 = (Inr out, s')"
  shows "\<exists>out s'. catchE m h s = (Inr out, s')"
proof (cases "m s")
  case (Pair r s1)
  then show ?thesis
    using assms [of _ s1] by (cases r) (simp_all add: catchE_def)
qed

lemma fallback_returns:
  "\<exists>out s'. search_documents_fallback E database query lim skp s = (Inr out, s')"
  unfolding search_documents_fallback_def
  by (rule catchE_returns) (simp add: returnE_def)

lemma search_documents_returns:
  "\<exists>out s'. search_documents E database query lim skp s = (Inr out, s')"
  unfolding search_documents_def
  by (rule catchE_returns) (simp add: returnE_def fallback_returns)

lemma sublist_list_documents: "sublist ''couchdb_list_documents'' no_match_note"
proof -
  have "no_match_note =
          ''No documents matched the query. To verify documents exist, use ''
          @ ''couchdb_list_documents'' @ '' with include_docs=true''"
    by (simp add: no_match_note_def)
  then show ?thesis unfolding sublist_def by blast
qed

text \<open>
  C8. A \<open>search_documents\<close> call runs the query with limit 25 when \<open>limit\<close> is absent and
  skip 0 when \<open>skip\<close> is absent. When the query yields no document, the output has
  \<open>count\<close> 0 and the note that refers to \<open>couchdb_list_documents\<close>: on the primary path
  when \<open>db.find\<close> yields none, on the fallback path when the raw response holds none.
\<close>

theorem search_defaults_and_note:
  assumes db_arg: "arg_database arguments = Some database"
    and q_arg: "arg_query arguments = Some query"
    and lim: "lim = (case arg_limit arguments of None \<Rightarrow> 25 | Some l \<Rightarrow> l)"
    and skp: "skp = (case arg_skip arguments of None \<Rightarrow> 0 | Some k \<Rightarrow> k)"
    and srv: "get_server E s = (Inr h, s1)"
    and db: "server_getitem E database (world s1) = (Inr (), w2)"
    and find: "db_find E database (mango_query query lim skp) w2 = (r, w3)"
  shows "call_tool E ''couchdb_search_documents'' arguments s =
           search_documents E database query lim skp s
         \<and> (arg_limit arguments = None \<longrightarrow> lim = 25)
         \<and> (arg_skip arguments = None \<longrightarrow> skp = 0)
         \<and> mango_query query lim skp =
             [(''selector'', JDict query), (''limit'', JInt lim), (''skip'', JInt skp)]
         \<and> prefix (calls s1 @ [ServerGetitem database,
                                 DbFind database (mango_query query lim skp)])
                   (calls (snd (call_tool E ''couchdb_search_documents'' arguments s)))
         \<and> (r = Inr [] \<longrightarrow>
              fst (call_tool E ''couchdb_search_documents'' arguments s) =
                Inr [TextContent (json_dumps E (JDict
                  [(''docs'', JList []), (''count'', JInt 0),
                   (''note'', JStr no_match_note)]))])
         \<and> (\<forall>e w4 result1 w5.
              r = Inl e \<and> class_of e = AttributeError
              \<and> server_getitem E database w3 = (Inr (), w4)
              \<and> db_post_json E database ''_find'' (mango_query query lim skp) w4
                   = (Inr result1, w5)
              \<and> py_len (dict_get_default result1 ''docs'' (JList [])) = Inr 0 \<longrightarrow>
              fst (call_tool E ''couchdb_search_documents'' arguments s) =
                Inr [TextContent (json_dumps E (JDict
                  ([(''docs'', dict_get_default result1 ''docs'' (JList [])),
                    (''count'', JInt 0)]
                   @ (if truthy (dict_get_default result1 ''warning'' JNull)
                      then [(''warning'', dict_get_default result1 ''warning'' JNull)]
                      else [])
                   @ [(''note'', JStr no_match_note)])))])
         \<and> sublist ''couchdb_list_documents'' no_match_note"
proof -
  let ?q = "mango_query query lim skp"
  let ?s3 = "s1\<lparr>world := w3, calls := calls s1 @ [ServerGetitem database, DbFind database ?q]\<rparr>"
  obtain out s' where ret: "search_documents E database query lim skp s = (Inr out, s')"
    using search_documents_returns by blast
  have body: "call_tool_body E ''couchdb_search_documents'' arguments s =
                search_documents E database query lim skp s"
    using db_arg q_arg lim skp
    by (simp add: call_tool_body_def subscript_def run_defs split: option.splits)
  have call: "call_tool E ''couchdb_search_documents'' arguments s =
                search_documents E database query lim skp s"
    using body ret by (simp add: call_tool_def catchE_def)
  have held3: "couch ?s3 = Some h"
    using get_server_couch [OF srv] by simp
  have log: "prefix (calls s1 @ [ServerGetitem database, DbFind database ?q])
                    (calls (snd (search_documents E database query lim skp s)))"
  proof (cases r)
    case (Inr docs)
    with find search_primary [OF srv db, of query lim skp docs w3] show ?thesis by simp
  next
    case (Inl e)
    with find have raised: "db_find E database ?q w2 = (Inl e, w3)" by simp
    show ?thesis
    proof (cases "class_of e = AttributeError")
      case False
      with search_primary_raises [OF srv db raised] show ?thesis by simp
    next
      case True
      then have redirect: "search_documents E database query lim skp s =
                   search_documents_fallback E database query lim skp ?s3"
        using search_primary_raises [OF srv db raised] by simp
      have "prefix (calls ?s3)
                   (calls (snd (search_documents_fallback E database query lim skp ?s3)))"
        using get_server_held [OF held3, of E]
        by (auto simp: search_documents_fallback_def run_defs prefix_def
            split: prod.splits sum.splits)
      with redirect show ?thesis by simp
    qed
  qed
  have empty: "r = Inr [] \<longrightarrow>
      fst (search_documents E database query lim skp s) =
        Inr [TextContent (json_dumps E (JDict
          [(''docs'', JList []), (''count'', JInt 0), (''note'', JStr no_match_note)]))]"
  proof
    assume "r = Inr []"
    with find search_primary [OF srv db, of query lim skp "[]" w3] show
      "fst (search_documents E database query lim skp s) =
        Inr [TextContent (json_dumps E (JDict
          [(''docs'', JList []), (''count'', JInt 0), (''note'', JStr no_match_note)]))]"
      by simp
  qed
  have fallback: "\<forall>e w4 result1 w5.
      r = Inl e \<and> class_of e = AttributeError
      \<and> server_getitem E database w3 = (Inr (), w4)
      \<and> db_post_json E database ''_find'' ?q w4 = (Inr result1, w5)
      \<and> py_len (dict_get_default result1 ''docs'' (JList [])) = Inr 0 \<longrightarrow>
      fst (search_documents E database query lim skp s) =
        Inr [TextContent (json_dumps E (JDict
          ([(''docs'', dict_get_default result1 ''docs'' (JList [])), (''count'', JInt 0)]
           @ (if truthy (dict_get_default result1 ''warning'' JNull)
              then [(''warning'', dict_get_default result1 ''warning'' JNull)] else [])
           @ [(''note'', JStr no_match_note)])))]"
  proof (intro allI impI, elim conjE)
    fix e w4 result1 w5
    assume r: "r = Inl e" and a: "class_of e = AttributeError"
      and db': "server_getitem E database w3 = (Inr (), w4)"
      and post: "db_post_json E database ''_find'' ?q w4 = (Inr result1, w5)"
      and len: "py_len (dict_get_default result1 ''docs'' (JList [])) = Inr 0"
    from r find have raised: "db_find E database ?q w2 = (Inl e, w3)" by simp
    have redirect: "search_documents E database query lim skp s =
                      search_documents_fallback E database query lim skp ?s3"
      using search_primary_raises [OF srv db raised] a by simp
    have db3: "server_getitem E database (world ?s3) = (Inr (), w4)"
      using db' by simp
    from fallback_empty [OF held3 db3 post len] redirect
    show "fst (search_documents E database query lim skp s) =
        Inr [TextContent (json_dumps E (JDict
          ([(''docs'', dict_get_default result1 ''docs'' (JList [])), (''count'', JInt 0)]
           @ (if truthy (dict_get_default result1 ''warning'' JNull)
              then [(''warning'', dict_get_default result1 ''warning'' JNull)] else [])
           @ [(''note'', JStr no_match_note)])))]"
      by simp
  qed
  have defaults: "(arg_limit arguments = None \<longrightarrow> lim = 25)
                  \<and> (arg_skip arguments = None \<longrightarrow> skp = 0)"
    using lim skp by simp
  have shape: "mango_query query lim skp =
                 [(''selector'', JDict query), (''limit'', JInt lim), (''skip'', JInt skp)]"
    by (simp add: mango_query_def)
  from call log empty fallback defaults shape sublist_list_documents show ?thesis
    by simp
qed

text \<open>A search of the empty database \<open>notes\<close> without limit and skip: once with a driver
  that offers \<open>find\<close>, once with one that does not, where the fallback finds no
  \<open>docs\<close> in what it reads.\<close>

theorem search_defaults_and_note_witness:
  "call_tool mem_env ''couchdb_search_documents''
       (no_arguments\<lparr>arg_database := Some ''notes'',
                     arg_query := Some [(''title'', JStr ''first'')]\<rparr>)
       (started mem_env local_url empty_store) =
     (Inr [TextContent (render (JDict
        [(''docs'', JList []), (''count'', JInt 0), (''note'', JStr no_match_note)]))],
      (started mem_env local_url empty_store)
        \<lparr>calls := [ServerNew local_url, ServerVersion, ServerGetitem ''notes'',
                   DbFind ''notes'' [(''selector'', JDict [(''title'', JStr ''first'')]),
                                     (''limit'', JInt 25), (''skip'', JInt 0)]]\<rparr>)
   \<and> fst (call_tool mem_env ''couchdb_search_documents''
       (no_arguments\<lparr>arg_database := Some ''notes'',
                     arg_query := Some [(''title'', JStr ''first'')]\<rparr>)
       (started mem_env local_url (empty_store\<lparr>has_find := False\<rparr>))) =
     Inr [TextContent (render (JDict
        [(''docs'', JList []), (''count'', JInt 0), (''note'', JStr no_match_note)]))]"
proof -
  let ?args = "no_arguments\<lparr>arg_database := Some ''notes'',
                             arg_query := Some [(''title'', JStr ''first'')]\<rparr>"
  let ?query = "[(''title'', JStr ''first'')]"
  let ?q = "mango_query ?query 25 0"
  have db_arg: "arg_database ?args = Some ''notes''" by simp
  have q_arg: "arg_query ?args = Some ?query" by simp
  have lim: "(25::int) = (case arg_limit ?args of None \<Rightarrow> 25 | Some l \<Rightarrow> l)"
    by (simp add: no_arguments_def)
  have skp: "(0::int) = (case arg_skip ?args of None \<Rightarrow> 0 | Some k \<Rightarrow> k)"
    by (simp add: no_arguments_def)
  have first: "call_tool mem_env ''couchdb_search_documents'' ?args
       (started mem_env local_url empty_store) =
     (Inr [TextContent (render (JDict
        [(''docs'', JList []), (''count'', JInt 0), (''note'', JStr no_match_note)]))],
      (started mem_env local_url empty_store)
        \<lparr>calls := [ServerNew local_url, ServerVersion, ServerGetitem ''notes'',
                   DbFind ''notes'' [(''selector'', JDict [(''title'', JStr ''first'')]),
                                     (''limit'', JInt 25), (''skip'', JInt 0)]]\<rparr>)"
  proof -
    let ?s = "started mem_env local_url empty_store"
    have srv: "get_server mem_env ?s = (Inr 0, ?s)"
      by (simp add: started_mem get_server_held)
    have db: "server_getitem mem_env ''notes'' (world ?s) = (Inr (), empty_store)"
      unfolding started_mem
      by (simp add: mem_env_def online_def mem_getitem_def empty_store_def)
    have find: "db_find mem_env ''notes'' ?q empty_store = (Inr [], empty_store)"
      by (simp add: mem_env_def online_def mem_find_def select_def documents_of_def
          empty_store_def)
    have run: "search_documents mem_env ''notes'' ?query 25 0 ?s =
        (Inr [TextContent (render (JDict
           [(''docs'', JList []), (''count'', JInt 0), (''note'', JStr no_match_note)]))],
         ?s\<lparr>world := empty_store,
             calls := calls ?s @ [ServerGetitem ''notes'', DbFind ''notes'' ?q]\<rparr>)"
      using search_primary [OF srv db find] by (simp add: json_dumps_mem)
    from search_defaults_and_note [OF db_arg q_arg lim skp srv db find] run
    show ?thesis
      by (simp add: started_mem mango_query_def)
  qed
  have second: "fst (call_tool mem_env ''couchdb_search_documents'' ?args
       (started mem_env local_url (empty_store\<lparr>has_find := False\<rparr>))) =
     Inr [TextContent (render (JDict
        [(''docs'', JList []), (''count'', JInt 0), (''note'', JStr no_match_note)]))]"
  proof -
    let ?w = "empty_store\<lparr>has_find := False\<rparr>"
    let ?s = "started mem_env local_url ?w"
    let ?e = "Exn AttributeError
                (quoted ''Database'' @ '' object has no attribute '' @ quoted ''find'')"
    let ?result1 = "response_headers"
    have srv: "get_server mem_env ?s = (Inr 0, ?s)"
      by (simp add: started_mem get_server_held)
    have db: "server_getitem mem_env ''notes'' (world ?s) = (Inr (), ?w)"
      unfolding started_mem
      by (simp add: mem_env_def online_def mem_getitem_def empty_store_def)
    have find: "db_find mem_env ''notes'' ?q ?w = (Inl ?e, ?w)"
      by (simp add: mem_env_def mem_find_def empty_store_def)
    have db': "server_getitem mem_env ''notes'' ?w = (Inr (), ?w)"
      by (simp add: mem_env_def online_def mem_getitem_def empty_store_def)
    have post: "db_post_json mem_env ''notes'' ''_find'' ?q ?w = (Inr ?result1, ?w)"
      by (simp add: mem_env_def online_def mem_post_json_def raw_post_def index1_def
          empty_store_def)
    have len: "py_len (dict_get_default ?result1 ''docs'' (JList [])) = Inr 0"
      by (simp add: dict_get_default_def response_headers_def)
    note fb = search_defaults_and_note [OF db_arg q_arg lim skp srv db find,
        THEN conjunct2, THEN conjunct2, THEN conjunct2, THEN conjunct2, THEN conjunct2,
        THEN conjunct2, THEN conjunct1, rule_format, of ?e ?w ?result1 ?w]
    have "fst (call_tool mem_env ''couchdb_search_documents'' ?args ?s) =
            Inr [TextContent (json_dumps mem_env (JDict
              ([(''docs'', dict_get_default ?result1 ''docs'' (JList [])),
                (''count'', JInt 0)]
               @ (if truthy (dict_get_default ?result1 ''warning'' JNull)
                  then [(''warning'', dict_get_default ?result1 ''warning'' JNull)]
                  else [])
               @ [(''note'', JStr no_match_note)])))]"
      by (rule fb) (simp add: db' post len)
    then show ?thesis
      by (simp add: json_dumps_mem dict_get_default_def response_headers_def)
  qed
  from first second show ?thesis by simp
qed

text \<open>
  C4, as the code has it. When \<open>db.find\<close> raises an \<open>AttributeError\<close> (the driver has no
  \<open>find\<close>), \<open>search_documents\<close> goes on as \<open>search_documents_fallback\<close> with the same
  arguments; the fallback looks the database up again and, that lookup succeeding, posts
  to \<open>_find\<close> a body with the same selector, limit and skip as the primary attempt, and
  asks nothing else of the server. Any other failure of the primary attempt ends the
  call without a fallback: \<open>KeyError\<close> as \<open>Database ... not found\<close>, the rest as
  \<open>Error searching documents: <message>\<close>.
\<close>

theorem search_fallback_on_attribute_error:
  assumes srv: "get_server E s = (Inr h, s1)"
    and db: "server_getitem E database (world s1) = (Inr (), w2)"
    and find: "db_find E database (mango_query query lim skp) w2 = (Inl e, w3)"
    and s3: "s3 = s1\<lparr>world := w3,
                     calls := calls s1 @ [ServerGetitem database,
                                          DbFind database (mango_query query lim skp)]\<rparr>"
  shows "(class_of e = AttributeError \<longrightarrow>
            search_documents E database query lim skp s =
              search_documents_fallback E database query lim skp s3
            \<and> (\<forall>w4 r w5.
                 server_getitem E database w3 = (Inr (), w4) \<longrightarrow>
                 db_post_json E database ''_find'' (mango_query query lim skp) w4 = (r, w5) \<longrightarrow>
                 snd (search_documents E database query lim skp s) =
                   s3\<lparr>world := w5,
                      calls := calls s3 @ [ServerGetitem database,
                        DbPostJson database ''_find'' (mango_query query lim skp)]\<rparr>))
         \<and> (class_of e = KeyError \<longrightarrow>
              search_documents E database query lim skp s =
                (Inr [TextContent (''Database '' @ quoted database @ '' not found'')], s3))
         \<and> (class_of e \<noteq> AttributeError \<longrightarrow> class_of e \<noteq> KeyError \<longrightarrow>
              search_documents E database query lim skp s =
                (Inr [TextContent (''Error searching documents: '' @ str e)], s3))"
proof -
  note raised = search_primary_raises [OF srv db find, folded s3]
  have held3: "couch s3 = Some h"
    using get_server_couch [OF srv] s3 by simp
  have redirect: "class_of e = AttributeError \<Longrightarrow>
      search_documents E database query lim skp s =
        search_documents_fallback E database query lim skp s3"
    using raised by simp
  have request: "class_of e = AttributeError \<Longrightarrow>
      server_getitem E database w3 = (Inr (), w4) \<Longrightarrow>
      db_post_json E database ''_find'' (mango_query query lim skp) w4 = (r, w5) \<Longrightarrow>
      snd (search_documents E database query lim skp s) =
        s3\<lparr>world := w5,
           calls := calls s3 @ [ServerGetitem database,
             DbPostJson database ''_find'' (mango_query query lim skp)]\<rparr>" for w4 r w5
  proof -
    assume a: "class_of e = AttributeError"
      and db': "server_getitem E database w3 = (Inr (), w4)"
      and post: "db_post_json E database ''_find'' (mango_query query lim skp) w4 = (r, w5)"
    from db' s3 have db3: "server_getitem E database (world s3) = (Inr (), w4)" by simp
    from fallback_request [OF held3 db3 post] redirect [OF a] show ?thesis by simp
  qed
  have missing: "class_of e = KeyError \<Longrightarrow>
      search_documents E database query lim skp s =
        (Inr [TextContent (''Database '' @ quoted database @ '' not found'')], s3)"
    using raised by simp
  have other: "class_of e \<noteq> AttributeError \<Longrightarrow> class_of e \<noteq> KeyError \<Longrightarrow>
      search_documents E database query lim skp s =
        (Inr [TextContent (''Error searching documents: '' @ str e)], s3)"
    using raised by simp
  show ?thesis
    by (intro conjI impI allI redirect request missing other)
qed

text \<open>The stored note searched through a driver that has no \<open>find\<close>.\<close>

theorem search_fallback_on_attribute_error_witness:
  "snd (search_documents mem_env ''notes'' [(''title'', JStr ''first'')] 25 0
          (started mem_env local_url (one_store\<lparr>has_find := False\<rparr>))) =
     \<lparr>url = local_url, couch = Some 0, world = one_store\<lparr>has_find := False\<rparr>,
      calls = [ServerNew local_url, ServerVersion, ServerGetitem ''notes'',
               DbFind ''notes'' (mango_query [(''title'', JStr ''first'')] 25 0),
               ServerGetitem ''notes'',
               DbPostJson ''notes'' ''_find'' (mango_query [(''title'', JStr ''first'')] 25 0)]\<rparr>"
proof -
  let ?w = "one_store\<lparr>has_find := False\<rparr>"
  let ?s = "started mem_env local_url ?w"
  let ?query = "[(''title'', JStr ''first'')]"
  let ?q = "mango_query ?query 25 0"
  let ?e = "Exn AttributeError
              (quoted ''Database'' @ '' object has no attribute '' @ quoted ''find'')"
  let ?s3 = "?s\<lparr>world := ?w, calls := calls ?s @ [ServerGetitem ''notes'', DbFind ''notes'' ?q]\<rparr>"
  have srv: "get_server mem_env ?s = (Inr 0, ?s)"
    by (simp add: started_mem get_server_held)
  have db: "server_getitem mem_env ''notes'' (world ?s) = (Inr (), ?w)"
    unfolding started_mem
    by (simp add: mem_env_def online_def mem_getitem_def one_store_def)
  have find: "db_find mem_env ''notes'' ?q ?w = (Inl ?e, ?w)"
    by (simp add: mem_env_def mem_find_def one_store_def)
  have db': "server_getitem mem_env ''notes'' ?w = (Inr (), ?w)"
    by (simp add: mem_env_def online_def mem_getitem_def one_store_def)
  obtain r where post: "db_post_json mem_env ''notes'' ''_find'' ?q ?w = (r, ?w)"
    by (simp add: mem_env_def online_def mem_post_json_def raw_post_def index1_def
        one_store_def)
  have a: "class_of ?e = AttributeError" by simp
  note fb = search_fallback_on_attribute_error [OF srv db find refl,
      THEN conjunct1, rule_format, OF a, THEN conjunct2, rule_format, OF db' post]
  then show ?thesis
    by (simp add: started_mem)
qed

text \<open>
  C4 as stated fails when the primary attempt fails otherwise: the query endpoint
  answering with a server error, the call ends with \<open>Error searching documents\<close> and no
  raw request is made.
\<close>

theorem search_no_fallback_counterexample:
  "call_tool mem_env ''couchdb_search_documents''
       (no_arguments\<lparr>arg_database := Some ''notes'',
                     arg_query := Some [(''title'', JStr ''first'')]\<rparr>)
       (started mem_env local_url
          (one_store\<lparr>query_fault := Some (Exn OtherException ''(500, internal_server_error)'')\<rparr>)) =
     (Inr [TextContent ''Error searching documents: (500, internal_server_error)''],
      \<lparr>url = local_url, couch = Some 0,
       world = one_store\<lparr>query_fault := Some (Exn OtherException ''(500, internal_server_error)'')\<rparr>,
       calls = [ServerNew local_url, ServerVersion, ServerGetitem ''notes'',
                DbFind ''notes'' [(''selector'', JDict [(''title'', JStr ''first'')]),
                                  (''limit'', JInt 25), (''skip'', JInt 0)]]\<rparr>)"
  unfolding started_mem
  by (simp add: call_tool_def call_tool_body_def subscript_def no_arguments_def
      search_documents_def get_server_def mango_query_def
      mem_env_def online_def mem_getitem_def mem_find_def one_store_def run_defs)

text \<open>
  C3 at a concrete input. The database \<open>notes\<close> has no index, so the body of the
  server's answer to the query carries a warning next to the document found. The
  primary path receives from \<open>db.find\<close> the documents only: its output has the document
  and the count and no warning.
\<close>

theorem search_primary_drops_warning:
  "find_response one_store ''notes'' (mango_query [(''title'', JStr ''first'')] 25 0) =
     [(''docs'', JList [JDict note1]), (''warning'', JStr no_index_warning)]
   \<and> db_find mem_env ''notes'' (mango_query [(''title'', JStr ''first'')] 25 0) one_store =
     (Inr [note1], one_store)
   \<and> call_tool mem_env ''couchdb_search_documents''
       (no_arguments\<lparr>arg_database := Some ''notes'',
                     arg_query := Some [(''title'', JStr ''first'')]\<rparr>)
       (started mem_env local_url one_store) =
     (Inr [TextContent (json_dumps mem_env (JDict
        [(''docs'', JList [JDict note1]), (''count'', JInt 1)]))],
      (started mem_env local_url one_store)
        \<lparr>calls := [ServerNew local_url, ServerVersion, ServerGetitem ''notes'',
                   DbFind ''notes'' (mango_query [(''title'', JStr ''first'')] 25 0)]\<rparr>)"
proof -
  let ?args = "no_arguments\<lparr>arg_database := Some ''notes'',
                             arg_query := Some [(''title'', JStr ''first'')]\<rparr>"
  let ?query = "[(''title'', JStr ''first'')]"
  let ?q = "mango_query ?query 25 0"
  let ?s = "started mem_env local_url one_store"
  have sel: "select one_store ''notes'' ?q = [note1]"
    by (simp add: select_def mango_query_def dict_get_def documents_of_def matches_def
        note1_def one_store_def)
  have response: "find_response one_store ''notes'' ?q =
                    [(''docs'', JList [JDict note1]), (''warning'', JStr no_index_warning)]"
    using sel by (simp add: find_response_def one_store_def)
  have body: "call_tool_body mem_env ''couchdb_search_documents'' ?args =
                search_documents mem_env ''notes'' ?query 25 0"
    by (simp add: call_tool_body_def subscript_def no_arguments_def run_defs fun_eq_iff)
  have srv: "get_server mem_env ?s = (Inr 0, ?s)"
    by (simp add: started_mem get_server_held)
  have db: "server_getitem mem_env ''notes'' (world ?s) = (Inr (), one_store)"
    unfolding started_mem
    by (simp add: mem_env_def online_def mem_getitem_def one_store_def)
  have find: "db_find mem_env ''notes'' ?q one_store = (Inr [note1], one_store)"
    using sel by (simp add: mem_env_def online_def mem_find_def one_store_def)
  have primary: "call_tool mem_env ''couchdb_search_documents'' ?args ?s =
     (Inr [TextContent (json_dumps mem_env (JDict
        [(''docs'', JList [JDict note1]), (''count'', JInt 1)]))],
      ?s\<lparr>calls := [ServerNew local_url, ServerVersion, ServerGetitem ''notes'',
                    DbFind ''notes'' ?q]\<rparr>)"
    using search_primary [OF srv db find] body
    by (simp add: call_tool_def catchE_def started_mem)
  from response find primary show ?thesis by simp
qed

section \<open>The dispatcher boundary\<close>

text \<open>Rules for \<open>yields\<close>, one for each way the handlers are put together.\<close>

lemma yields_returnE: "P x \<Longrightarrow> yields P (returnE x)"
  by (simp add: yields_def returnE_def)

lemma yields_raiseE: "yields P (raiseE e)"
  by (simp add: yields_def raiseE_def)

lemma yields_bindE: "(\<And>x. yields P (f x)) \<Longrightarrow> yields P (bindE m f)"
  unfolding yields_def bindE_def
  by (auto split: prod.splits sum.splits)

lemma yields_catchE: "yields P m \<Longrightarrow> (\<And>e. yields P (h e)) \<Longrightarrow> yields P (catchE m h)"
  unfolding yields_def catchE_def
  by (auto split: prod.splits sum.splits)

lemma yields_if: "(c \<Longrightarrow> yields P a) \<Longrightarrow> (\<not> c \<Longrightarrow> yields P b) \<Longrightarrow> yields P (if c then a else b)"
  by simp

lemma yields_case_prod: "(\<And>a b. yields P (f a b)) \<Longrightarrow> yields P (case_prod f x)"
  by (cases x) simp

lemmas yields_intros =
  yields_catchE yields_bindE yields_if yields_case_prod yields_raiseE yields_returnE

lemma list_databases_one: "yields one_text (list_databases E)"
  unfolding list_databases_def by (intro yields_intros) simp

lemma create_database_one: "yields one_text (create_database E name)"
  unfolding create_database_def by (intro yields_intros) simp_all

lemma delete_database_one: "yields one_text (delete_database E name)"
  unfolding delete_database_def by (intro yields_intros) simp_all

lemma create_document_one: "yields one_text (create_document E database document doc_id)"
  unfolding create_document_def by (intro yields_intros) simp_all

lemma get_document_one: "yields one_text (get_document E database doc_id)"
  unfolding get_document_def by (intro yields_intros) simp_all

lemma update_document_one: "yields one_text (update_document E database doc_id document)"
  unfolding update_document_def Let_def by (intro yields_intros) simp_all

lemma delete_document_one: "yields one_text (delete_document E database doc_id rv)"
  unfolding delete_document_def Let_def by (intro yields_intros) simp_all

lemma search_documents_fallback_one:
  "yields one_text (search_documents_fallback E database query lim skp)"
  unfolding search_documents_fallback_def Let_def by (intro yields_intros) simp_all

lemma search_documents_one: "yields one_text (search_documents E database query lim skp)"
  unfolding search_documents_def Let_def
  by (intro yields_intros search_documents_fallback_one) simp_all

lemma list_documents_one: "yields one_text (list_documents E database limit include_docs)"
  unfolding list_documents_def Let_def by (intro yields_intros) simp_all

lemma create_index_one: "yields one_text (create_index E database field_names index_name)"
  unfolding create_index_def Let_def by (intro yields_intros) simp_all

lemma list_indexes_one: "yields one_text (list_indexes E database)"
  unfolding list_indexes_def Let_def by (intro yields_intros) simp_all

lemmas handlers_one =
  list_databases_one create_database_one delete_database_one create_document_one
  get_document_one update_document_one delete_document_one search_documents_one
  list_documents_one create_index_one list_indexes_one

lemma call_tool_body_one: "yields one_text (call_tool_body E name arguments)"
  unfolding call_tool_body_def
  by (intro yields_intros handlers_one)

lemma one_textE: "one_text out \<Longrightarrow> \<exists>t. out = [TextContent t]"
  by (cases out rule: one_text.cases) simp_all

text \<open>
  C1, as the code has it. For every tool name and every argument payload \<open>call_tool\<close>
  returns a list of exactly one text block and raises nothing. A failure that leaves the
  dispatch inside the \<open>try\<close> (an unknown tool, a missing required argument key, and any
  failure of a handler that none of the handler's own except clauses catches) is
  rendered as \<open>Error: <message>\<close>; a failure that a handler's own clause catches is
  rendered by that clause.
\<close>

theorem call_tool_contains:
  "\<exists>t s'. call_tool E name arguments s = (Inr [TextContent t], s')
     \<and> (\<forall>e s1. call_tool_body E name arguments s = (Inl e, s1) \<longrightarrow>
            t = ''Error: '' @ str e \<and> s' = s1)
     \<and> (\<forall>out s1. call_tool_body E name arguments s = (Inr out, s1) \<longrightarrow>
            out = [TextContent t] \<and> s' = s1)"
proof (cases "call_tool_body E name arguments s")
  case (Pair r s1)
  show ?thesis
  proof (cases r)
    case (Inl e)
    with Pair show ?thesis
      by (simp add: call_tool_def catchE_def returnE_def)
  next
    case (Inr out)
    with Pair call_tool_body_one [of E name arguments] have "one_text out"
      unfolding yields_def by blast
    then obtain t where "out = [TextContent t]"
      using one_textE by blast
    with Pair Inr show ?thesis
      by (simp add: call_tool_def catchE_def)
  qed
qed

text \<open>A call without its required argument: the key lookup fails inside the dispatch.\<close>

theorem call_tool_contains_witness:
  "call_tool_body mem_env ''couchdb_create_database'' no_arguments
       (started mem_env local_url empty_store) =
     (Inl (Exn KeyError (quoted ''name'')), started mem_env local_url empty_store)
   \<and> call_tool mem_env ''couchdb_create_database'' no_arguments
       (started mem_env local_url empty_store) =
     (Inr [TextContent (''Error: '' @ quoted ''name'')], started mem_env local_url empty_store)"
proof -
  let ?s = "started mem_env local_url empty_store"
  have body: "call_tool_body mem_env ''couchdb_create_database'' no_arguments ?s =
                (Inl (Exn KeyError (quoted ''name'')), ?s)"
    by (simp add: call_tool_body_def subscript_def no_arguments_def bindE_def raiseE_def)
  from call_tool_contains [of mem_env "''couchdb_create_database''" no_arguments ?s]
  obtain t s' where
    run: "call_tool mem_env ''couchdb_create_database'' no_arguments ?s
            = (Inr [TextContent t], s')"
    and raised: "\<forall>e s1. call_tool_body mem_env ''couchdb_create_database'' no_arguments ?s
            = (Inl e, s1) \<longrightarrow> t = ''Error: '' @ str e \<and> s' = s1"
    by blast
  from raised body have "t = ''Error: '' @ quoted ''name''" and "s' = ?s"
    by simp_all
  with run body show ?thesis by simp
qed

text \<open>
  C1 as stated fails for a failure that a handler catches itself. On a new server object
  whose server is down, the lazy connect inside \<open>_create_document\<close> fails and the
  handler's own catch-all renders it; after \<open>main\<close>'s start-up attempt the handle is held
  and the refused database lookup is rendered the same way. Neither text has the form
  \<open>Error: <message>\<close>.
\<close>

theorem call_tool_error_form_counterexample:
  "fst (call_tool mem_env ''couchdb_create_document''
          (no_arguments\<lparr>arg_database := Some ''notes'',
                        arg_document := Some [(''title'', JStr ''first'')]\<rparr>)
          (init local_url down_store)) =
     Inr [TextContent (''Error creating document: Failed to connect to CouchDB at ''
                       @ local_url @ '': [Errno 111] Connection refused'')]
   \<and> fst (call_tool mem_env ''couchdb_create_document''
          (no_arguments\<lparr>arg_database := Some ''notes'',
                        arg_document := Some [(''title'', JStr ''first'')]\<rparr>)
          (started mem_env local_url down_store)) =
     Inr [TextContent ''Error creating document: [Errno 111] Connection refused'']
   \<and> \<not> prefix ''Error: '' (''Error creating document: Failed to connect to CouchDB at ''
                       @ local_url @ '': [Errno 111] Connection refused'')
   \<and> \<not> prefix ''Error: '' ''Error creating document: [Errno 111] Connection refused''"
proof -
  let ?args = "no_arguments\<lparr>arg_database := Some ''notes'',
                             arg_document := Some [(''title'', JStr ''first'')]\<rparr>"
  have body: "call_tool_body mem_env ''couchdb_create_document'' ?args =
                create_document mem_env ''notes'' [(''title'', JStr ''first'')] None"
    by (simp add: call_tool_body_def subscript_def no_arguments_def run_defs fun_eq_iff)
  have lazy: "create_document mem_env ''notes'' [(''title'', JStr ''first'')] None
                (init local_url down_store) =
     (Inr [TextContent (''Error creating document: Failed to connect to CouchDB at ''
                       @ local_url @ '': [Errno 111] Connection refused'')],
      \<lparr>url = local_url, couch = Some 0, world = down_store,
       calls = [ServerNew local_url, ServerVersion]\<rparr>)"
    by (simp add: create_document_def get_server_def connect_def assign_couch_def init_def
        mem_env_def mem_new_def online_def down_store_def empty_store_def run_defs)
  have started_down: "started mem_env local_url down_store =
      \<lparr>url = local_url, couch = Some 0, world = down_store,
       calls = [ServerNew local_url, ServerVersion]\<rparr>"
    by (simp add: started_def startup_def init_def connect_def assign_couch_def mem_env_def
        mem_new_def online_def down_store_def empty_store_def run_defs)
  have held: "create_document mem_env ''notes'' [(''title'', JStr ''first'')] None
                (started mem_env local_url down_store) =
     (Inr [TextContent ''Error creating document: [Errno 111] Connection refused''],
      \<lparr>url = local_url, couch = Some 0, world = down_store,
       calls = [ServerNew local_url, ServerVersion, ServerGetitem ''notes'']\<rparr>)"
    unfolding started_down
    by (simp add: create_document_def get_server_def
        mem_env_def online_def down_store_def empty_store_def run_defs)
  have "\<not> prefix ''Error: '' (''Error creating document: '' @ rest)" for rest
    by simp
  with body lazy held show ?thesis
    by (simp add: call_tool_def catchE_def)
qed

section \<open>The connection handle\<close>

text \<open>Rules for \<open>keeps_handle\<close>: every building block of the handlers other than
  \<open>connect\<close> leaves a held handle in place and makes no connecting call.\<close>

lemma keeps_returnE: "keeps_handle h (returnE x)"
  by (simp add: keeps_handle_def returnE_def)

lemma keeps_raiseE: "keeps_handle h (raiseE e)"
  by (simp add: keeps_handle_def raiseE_def)

lemma keeps_liftE: "keeps_handle h (liftE r)"
  by (simp add: keeps_handle_def liftE_def)

lemma keeps_lib: "\<not> is_connect c \<Longrightarrow> keeps_handle h (lib c f)"
  by (simp add: keeps_handle_def lib_def split: prod.splits)

lemma keeps_subscript: "keeps_handle h (subscript k v)"
  by (cases v) (simp_all add: subscript_def keeps_returnE keeps_raiseE)

lemma keeps_get_server: "keeps_handle h (get_server E)"
  by (simp add: keeps_handle_def get_server_held)

lemma keeps_bindE:
  assumes m: "keeps_handle h m" and f: "\<And>x. keeps_handle h (f x)"
  shows "keeps_handle h (bindE m f)"
  unfolding keeps_handle_def
proof (intro allI impI)
  fix s :: "'a state"
  assume held: "couch s = Some h"
  obtain r s1 where run: "m s = (r, s1)" by (cases "m s")
  from m held have "couch (snd (m s)) = Some h \<and>
      filter is_connect (calls (snd (m s))) = filter is_connect (calls s)"
    unfolding keeps_handle_def by blast
  with run have s1: "couch s1 = Some h"
    "filter is_connect (calls s1) = filter is_connect (calls s)"
    by simp_all
  show "couch (snd (bindE m f s)) = Some h \<and>
        filter is_connect (calls (snd (bindE m f s))) = filter is_connect (calls s)"
  proof (cases r)
    case (Inl e)
    with run s1 show ?thesis by (simp add: bindE_def)
  next
    case (Inr x)
    from f [of x] s1 have "couch (snd (f x s1)) = Some h \<and>
        filter is_connect (calls (snd (f x s1))) = filter is_connect (calls s1)"
      by (simp add: keeps_handle_def)
    with run Inr s1 show ?thesis by (simp add: bindE_def)
  qed
qed

lemma keeps_catchE:
  assumes m: "keeps_handle h m" and f: "\<And>e. keeps_handle h (f e)"
  shows "keeps_handle h (catchE m f)"
  unfolding keeps_handle_def
proof (intro allI impI)
  fix s :: "'a state"
  assume held: "couch s = Some h"
  obtain r s1 where run: "m s = (r, s1)" by (cases "m s")
  from m held have "couch (snd (m s)) = Some h \<and>
      filter is_connect (calls (snd (m s))) = filter is_connect (calls s)"
    unfolding keeps_handle_def by blast
  with run have s1: "couch s1 = Some h"
    "filter is_connect (calls s1) = filter is_connect (calls s)"
    by simp_all
  show "couch (snd (catchE m f s)) = Some h \<and>
        filter is_connect (calls (snd (catchE m f s))) = filter is_connect (calls s)"
  proof (cases r)
    case (Inr x)
    with run s1 show ?thesis by (simp add: catchE_def)
  next
    case (Inl e)
    from f [of e] s1 have "couch (snd (f e s1)) = Some h \<and>
        filter is_connect (calls (snd (f e s1))) = filter is_connect (calls s1)"
      by (simp add: keeps_handle_def)
    with run Inl s1 show ?thesis by (simp add: catchE_def)
  qed
qed

lemma keeps_if:
  "(c \<Longrightarrow> keeps_handle h a) \<Longrightarrow> (\<not> c \<Longrightarrow> keeps_handle h b) \<Longrightarrow>
   keeps_handle h (if c then a else b)"
  by simp

lemma keeps_case_prod: "(\<And>a b. keeps_handle h (f a b)) \<Longrightarrow> keeps_handle h (case_prod f x)"
  by (cases x) simp

lemmas keeps_intros =
  keeps_catchE keeps_bindE keeps_if keeps_case_prod keeps_get_server keeps_subscript
  keeps_lib keeps_liftE keeps_raiseE keeps_returnE

lemma list_databases_keeps: "keeps_handle h (list_databases E)"
  unfolding list_databases_def by (intro keeps_intros) simp

lemma create_database_keeps: "keeps_handle h (create_database E name)"
  unfolding create_database_def by (intro keeps_intros) simp

lemma delete_database_keeps: "keeps_handle h (delete_database E name)"
  unfolding delete_database_def by (intro keeps_intros) simp

lemma create_document_keeps: "keeps_handle h (create_document E database document doc_id)"
  unfolding create_document_def Let_def by (intro keeps_intros) simp_all

lemma get_document_keeps: "keeps_handle h (get_document E database doc_id)"
  unfolding get_document_def by (intro keeps_intros) simp_all

lemma update_document_keeps: "keeps_handle h (update_document E database doc_id document)"
  unfolding update_document_def Let_def by (intro keeps_intros) simp_all

lemma delete_document_keeps: "keeps_handle h (delete_document E database doc_id rv)"
  unfolding delete_document_def Let_def by (intro keeps_intros) simp_all

lemma search_documents_fallback_keeps:
  "keeps_handle h (search_documents_fallback E database query lim skp)"
  unfolding search_documents_fallback_def Let_def by (intro keeps_intros) simp_all

lemma search_documents_keeps: "keeps_handle h (search_documents E database query lim skp)"
  unfolding search_documents_def Let_def
  by (intro keeps_intros search_documents_fallback_keeps) simp_all

lemma list_documents_keeps: "keeps_handle h (list_documents E database limit include_docs)"
  unfolding list_documents_def Let_def by (intro keeps_intros) simp_all

lemma create_index_keeps: "keeps_handle h (create_index E database field_names index_name)"
  unfolding create_index_def Let_def by (intro keeps_intros) simp_all

lemma list_indexes_keeps: "keeps_handle h (list_indexes E database)"
  unfolding list_indexes_def Let_def by (intro keeps_intros) simp_all

lemmas handlers_keep =
  list_databases_keeps create_database_keeps delete_database_keeps create_document_keeps
  get_document_keeps update_document_keeps delete_document_keeps search_documents_keeps
  list_documents_keeps create_index_keeps list_indexes_keeps

lemma call_tool_keeps: "keeps_handle h (call_tool E name arguments)"
  unfolding call_tool_def call_tool_body_def
  by (intro keeps_intros handlers_keep)

lemma serve_keeps: "keeps_handle h (serve E reqs)"
proof (induction reqs)
  case Nil
  show ?case by (simp add: keeps_handle_def)
next
  case (Cons req reqs)
  obtain name arguments where req: "req = (name, arguments)" by (cases req)
  show ?case
    unfolding keeps_handle_def
  proof (intro allI impI)
    fix s :: "'a state"
    assume held: "couch s = Some h"
    obtain r s1 where run: "call_tool E name arguments s = (r, s1)"
      by (cases "call_tool E name arguments s")
    from call_tool_keeps [of h E name arguments] held
    have "couch (snd (call_tool E name arguments s)) = Some h \<and>
        filter is_connect (calls (snd (call_tool E name arguments s)))
          = filter is_connect (calls s)"
      unfolding keeps_handle_def by blast
    with run have s1: "couch s1 = Some h"
      "filter is_connect (calls s1) = filter is_connect (calls s)"
      by simp_all
    from Cons.IH s1
    have rest: "couch (snd (serve E reqs s1)) = Some h"
      "filter is_connect (calls (snd (serve E reqs s1))) = filter is_connect (calls s)"
      by (simp_all add: keeps_handle_def)
    show "couch (snd (serve E (req # reqs) s)) = Some h \<and>
          filter is_connect (calls (snd (serve E (req # reqs) s))) = filter is_connect (calls s)"
      using req run s1 rest
      by (cases r; cases "serve E reqs s1"; cases "fst (serve E reqs s1)") simp_all
  qed
qed

text \<open>
  C9. Once a handle is held, \<open>_get_server\<close> returns that handle and leaves the state as it
  is: no connect, no re-validation. Every tool call, and every run of the serving loop,
  ends with the same handle held and without a connecting call
  (\<open>couchdb.Server(url)\<close>, \<open>version()\<close>) among the calls it made. So a tool call that does
  make a connecting call started without a handle.
\<close>

theorem handle_write_once:
  "(couch s = Some h \<longrightarrow>
       get_server E s = (Inr h, s)
     \<and> couch (snd (call_tool E name arguments s)) = Some h
     \<and> filter is_connect (calls (snd (call_tool E name arguments s)))
         = filter is_connect (calls s)
     \<and> couch (snd (serve E reqs s)) = Some h
     \<and> filter is_connect (calls (snd (serve E reqs s))) = filter is_connect (calls s))
   \<and> (filter is_connect (calls (snd (call_tool E name arguments s)))
         \<noteq> filter is_connect (calls s) \<longrightarrow> couch s = None)"
proof -
  have held: "couch s = Some h' \<Longrightarrow>
       couch (snd (call_tool E name arguments s)) = Some h'
     \<and> filter is_connect (calls (snd (call_tool E name arguments s)))
         = filter is_connect (calls s)" for h'
    using call_tool_keeps [of h' E name arguments] by (simp add: keeps_handle_def)
  have loop: "couch s = Some h \<Longrightarrow>
       couch (snd (serve E reqs s)) = Some h
     \<and> filter is_connect (calls (snd (serve E reqs s))) = filter is_connect (calls s)"
    using serve_keeps [of h E reqs] by (simp add: keeps_handle_def)
  have only_without: "filter is_connect (calls (snd (call_tool E name arguments s)))
         \<noteq> filter is_connect (calls s) \<Longrightarrow> couch s = None"
    using held by (cases "couch s") auto
  from held [of h] loop only_without get_server_held [of s h E] show ?thesis
    by blast
qed

text \<open>Two tool calls served after start-up: the handle and the two connecting calls of
  start-up are all there is.\<close>

theorem handle_write_once_witness:
  "couch (started mem_env local_url one_store) = Some 0
   \<and> get_server mem_env (started mem_env local_url one_store) =
       (Inr 0, started mem_env local_url one_store)
   \<and> couch (snd (serve mem_env
        [(''couchdb_list_databases'', no_arguments),
         (''couchdb_get_document'',
          no_arguments\<lparr>arg_database := Some ''notes'', arg_doc_id := Some ''n1''\<rparr>)]
        (started mem_env local_url one_store))) = Some 0
   \<and> filter is_connect (calls (snd (serve mem_env
        [(''couchdb_list_databases'', no_arguments),
         (''couchdb_get_document'',
          no_arguments\<lparr>arg_database := Some ''notes'', arg_doc_id := Some ''n1''\<rparr>)]
        (started mem_env local_url one_store)))) = [ServerNew local_url, ServerVersion]"
proof -
  let ?s = "started mem_env local_url one_store"
  have held: "couch ?s = Some 0"
    by (simp add: started_mem)
  note kept = handle_write_once [of ?s 0 mem_env "''couchdb_list_databases''" no_arguments
      "[(''couchdb_list_databases'', no_arguments),
        (''couchdb_get_document'',
         no_arguments\<lparr>arg_database := Some ''notes'', arg_doc_id := Some ''n1''\<rparr>)]",
      THEN conjunct1, rule_format, OF held]
  have "filter is_connect (calls ?s) = [ServerNew local_url, ServerVersion]"
    by (simp add: started_mem)
  with kept held show ?thesis by simp
qed

end
